theory Spec2Isabelle
  imports Main "HOL-Library.Word"
begin

unbundle bit_operations_syntax

section \<open>Machine types and constants of ModbusRtu.h\<close>

text \<open>
  The library targets the AVR boards of the Arduino family (it drives the UCSRnA
  registers directly), so \<open>uint8_t\<close>, \<open>uint16_t\<close> = \<open>unsigned int\<close> and
  \<open>uint32_t\<close> = \<open>unsigned long\<close> are words of 8, 16 and 32 bits whose arithmetic
  wraps around.  An \<open>int8_t\<close> result is an 8 bit word read with \<open>sint\<close>.
\<close>

type_synonym u8 = "8 word"
type_synonym i8 = "8 word"
type_synonym u16 = "16 word"
type_synonym u32 = "32 word"

text \<open>enum MESSAGE: indexes to telegram frame positions.\<close>

definition ID :: nat where "ID = 0"
definition FUNC :: nat where "FUNC = 1"
definition ADD_HI :: nat where "ADD_HI = 2"
definition ADD_LO :: nat where "ADD_LO = 3"
definition NB_HI :: nat where "NB_HI = 4"
definition NB_LO :: nat where "NB_LO = 5"
definition BYTE_CNT :: nat where "BYTE_CNT = 6"

lemmas MESSAGE_defs = ID_def FUNC_def ADD_HI_def ADD_LO_def NB_HI_def NB_LO_def BYTE_CNT_def

text \<open>enum COM_STATES.\<close>

definition COM_IDLE :: u8 where "COM_IDLE = 0"
definition COM_WAITING :: u8 where "COM_WAITING = 1"

text \<open>enum ERR_LIST.\<close>

definition ERR_NOT_MASTER :: i8 where "ERR_NOT_MASTER = - 1"
definition ERR_POLLING :: i8 where "ERR_POLLING = - 2"
definition ERR_BUFF_OVERFLOW :: i8 where "ERR_BUFF_OVERFLOW = - 3"
definition ERR_BAD_CRC :: i8 where "ERR_BAD_CRC = - 4"
definition ERR_EXCEPTION :: i8 where "ERR_EXCEPTION = - 5"

lemmas ERR_LIST_defs = ERR_NOT_MASTER_def ERR_POLLING_def ERR_BUFF_OVERFLOW_def
  ERR_BAD_CRC_def ERR_EXCEPTION_def

text \<open>The anonymous enums, the table of supported functions and the defines.\<close>

definition NO_REPLY :: u8 where "NO_REPLY = 255"
definition EXC_FUNC_CODE :: u8 where "EXC_FUNC_CODE = 1"
definition EXC_ADDR_RANGE :: u8 where "EXC_ADDR_RANGE = 2"

definition RESPONSE_SIZE :: u8 where "RESPONSE_SIZE = 6"
definition EXCEPTION_SIZE :: u8 where "EXCEPTION_SIZE = 3"

definition fctsupported :: "u8 list" where
  "fctsupported = [1, 2, 3, 4, 5, 6, 15, 16]"

definition T35 :: u32 where "T35 = 5"
definition MAX_BUFFER :: nat where "MAX_BUFFER = 64"
definition SIZE_R_REGS :: nat where "SIZE_R_REGS = 16"
definition SIZE_RW_REGS :: nat where "SIZE_RW_REGS = 16"
definition SIZE_R_BITS :: nat where "SIZE_R_BITS = 16"
definition SIZE_RW_BITS :: nat where "SIZE_RW_BITS = 16"

lemmas SIZE_defs = MAX_BUFFER_def SIZE_R_REGS_def SIZE_RW_REGS_def SIZE_R_BITS_def
  SIZE_RW_BITS_def

text \<open>Arduino's \<open>word(h, l)\<close>, \<open>highByte\<close> and \<open>lowByte\<close>.\<close>

definition word_hl :: "u8 \<Rightarrow> u8 \<Rightarrow> u16" where
  "word_hl h l = push_bit 8 (ucast h) OR ucast l"

definition highByte :: "u16 \<Rightarrow> u8" where
  "highByte w = ucast (drop_bit 8 w)"

definition lowByte :: "u16 \<Rightarrow> u8" where
  "lowByte w = ucast (w AND 0xFF)"

section \<open>CRC engine\<close>

text \<open>
  The inner loop of \<open>calcCRC\<close>: \<open>flag = temp & 0x0001; temp >>= 1;
  if (flag) temp ^= 0xA001;\<close>
\<close>

definition crc_shift :: "u16 \<Rightarrow> u16" where
  "crc_shift temp =
     (let flag = temp AND 0x0001; temp1 = drop_bit 1 temp
      in if flag \<noteq> 0 then temp1 XOR 0xA001 else temp1)"

text \<open>One pass of the outer loop: \<open>temp = temp ^ au8Buffer[i]\<close>, then eight shifts.\<close>

definition crc_byte :: "u16 \<Rightarrow> u8 \<Rightarrow> u16" where
  "crc_byte temp b = (crc_shift ^^ 8) (temp XOR ucast b)"

text \<open>The byte swap that ends \<open>calcCRC\<close>.\<close>

definition crc_swap :: "u16 \<Rightarrow> u16" where
  "crc_swap temp = (let temp2 = drop_bit 8 temp in (push_bit 8 temp OR temp2) AND 0xFFFF)"

text \<open>\<open>calcCRC\<close> over the bytes \<open>au8Buffer[0 .. u8length - 1]\<close>, given as a list.\<close>

definition crc16 :: "u8 list \<Rightarrow> u16" where
  "crc16 bytes = crc_swap (foldl crc_byte 0xFFFF bytes)"


section \<open>Memory accesses\<close>

text \<open>
  C does not check array indices.  The model does: an access outside the declared size
  of an array is the value \<open>Inl (OutOfRange a i)\<close>, naming the array and the index, and
  ends the run of the function that made it.
\<close>

datatype array_id = AU8BUFFER | AU16REGS | R_REGAREA | RW_REGAREA | R_BITAREA | RW_BITAREA | PREGS

datatype fault = OutOfRange array_id int

definition fbind :: "fault + 'a \<Rightarrow> ('a \<Rightarrow> fault + 'b) \<Rightarrow> fault + 'b" where
  "fbind m f = (case m of Inl e \<Rightarrow> Inl e | Inr x \<Rightarrow> f x)"

definition rd :: "array_id \<Rightarrow> nat \<Rightarrow> 'a list \<Rightarrow> int \<Rightarrow> fault + 'a" where
  "rd a n xs i = (if 0 \<le> i \<and> i < int n then Inr (xs ! nat i) else Inl (OutOfRange a i))"

definition wr :: "array_id \<Rightarrow> nat \<Rightarrow> 'a list \<Rightarrow> int \<Rightarrow> 'a \<Rightarrow> fault + 'a list" where
  "wr a n xs i v = (if 0 \<le> i \<and> i < int n then Inr (xs[nat i := v]) else Inl (OutOfRange a i))"

text \<open>
  \<open>for (i = i0; i < i0 + n; i++) body\<close> for a loop whose bound does not change:
  \<open>for_loop n i0 body s\<close> runs the body at \<open>i0, i0 + 1, ...\<close>, \<open>n\<close> times, and stops
  at the first fault.
\<close>

primrec for_loop :: "nat \<Rightarrow> nat \<Rightarrow> (nat \<Rightarrow> 's \<Rightarrow> fault + 's) \<Rightarrow> 's \<Rightarrow> fault + 's" where
  "for_loop 0 i body s = Inr s"
| "for_loop (Suc n) i body s = fbind (body i s) (for_loop n (Suc i) body)"

text \<open>Arduino's \<open>bitRead\<close> and \<open>bitWrite\<close>.\<close>

definition bitRead :: "'a::len word \<Rightarrow> nat \<Rightarrow> bool" where
  "bitRead v n = (drop_bit n v AND 1 \<noteq> 0)"

definition bitWrite :: "'a::len word \<Rightarrow> nat \<Rightarrow> bool \<Rightarrow> 'a word" where
  "bitWrite v n b = (if b then v OR push_bit n 1 else v AND NOT (push_bit n 1))"

section \<open>The engine state\<close>

text \<open>
  The members of class \<open>Modbus\<close>.  The serial port behind \<open>port\<close> is the pair
  \<open>port_rx\<close> (the bytes waiting to be read, oldest first) and \<open>port_tx\<close> (the blocks
  handed to \<open>port->write\<close>, oldest first).  \<open>au16regs\<close> points into the caller's
  memory; the model holds the array it points to.  The members \<open>u8serno\<close> and
  \<open>u8txenpin\<close> only select hardware and \<open>u8regsize\<close> is never read; they are
  left out.
  \<open>millis()\<close> is the argument \<open>now\<close> of every operation that reads the clock; one call
  of an operation sees one clock value.
\<close>

record modbus =
  u8id :: u8
  u8state :: u8
  u8lastError :: u8
  au8Buffer :: "u8 list"
  u8BufferSize :: u8
  u8lastRec :: u8
  au16regs :: "u16 list"
  u16InCnt :: u16
  u16OutCnt :: u16
  u16errCnt :: u16
  u16timeOut :: u16
  r_regArea :: "u16 list"
  rw_regArea :: "u16 list"
  r_bitArea :: "u16 list"
  rw_bitArea :: "u16 list"
  u32time :: u32
  u32timeOut :: u32
  port_rx :: "u8 list"
  port_tx :: "u8 list list"

text \<open>The arrays have their declared sizes.\<close>

definition well_formed :: "modbus \<Rightarrow> bool" where
  "well_formed st \<longleftrightarrow>
     length (au8Buffer st) = MAX_BUFFER \<and>
     length (r_regArea st) = SIZE_R_REGS \<and>
     length (rw_regArea st) = SIZE_RW_REGS \<and>
     length (r_bitArea st) = SIZE_R_BITS div 16 + 1 \<and>
     length (rw_bitArea st) = SIZE_RW_BITS div 16 + 1"

text \<open>
  The constructor (\<open>init\<close>) followed by \<open>begin\<close>, for an object in static storage:
  members that neither of them assigns are zero.
\<close>

definition Modbus_begin :: "u8 \<Rightarrow> modbus" where
  "Modbus_begin id0 =
     \<lparr> u8id = id0, u8state = 0, u8lastError = 0,
       au8Buffer = replicate MAX_BUFFER 0, u8BufferSize = 0, u8lastRec = 0,
       au16regs = [], u16InCnt = 0, u16OutCnt = 0, u16errCnt = 0, u16timeOut = 1000,
       r_regArea = replicate SIZE_R_REGS 0, rw_regArea = replicate SIZE_RW_REGS 0,
       r_bitArea = replicate (SIZE_R_BITS div 16 + 1) 0,
       rw_bitArea = replicate (SIZE_RW_BITS div 16 + 1) 0,
       u32time = 0, u32timeOut = 0, port_rx = [], port_tx = [] \<rparr>"

text \<open>
  The clock: \<open>millis()\<close> after \<open>t\<close> milliseconds of running time is \<open>t\<close> modulo
  \<open>2 ^ 32\<close>.
\<close>

definition millis :: "nat \<Rightarrow> u32" where
  "millis t = of_nat t"

text \<open>\<open>getTimeOutState\<close>: \<open>return (millis() > u32timeOut);\<close>\<close>

definition getTimeOutState :: "u32 \<Rightarrow> modbus \<Rightarrow> bool" where
  "getTimeOutState now st \<longleftrightarrow> now > u32timeOut st"

text \<open>The test \<open>millis() < u32time\<close> of both \<open>poll\<close> functions.\<close>

definition silence_pending :: "u32 \<Rightarrow> modbus \<Rightarrow> bool" where
  "silence_pending now st \<longleftrightarrow> now < u32time st"

section \<open>Frame buffer: CRC, transmit, receive\<close>

text \<open>
  \<open>calcCRC(u8length)\<close> reads \<open>au8Buffer[0 .. u8length - 1]\<close>; the first index it can
  read outside the buffer is \<open>MAX_BUFFER\<close>.
\<close>

definition calcCRC :: "modbus \<Rightarrow> u8 \<Rightarrow> fault + u16" where
  "calcCRC st u8length =
     (if unat u8length \<le> MAX_BUFFER then Inr (crc16 (take (unat u8length) (au8Buffer st)))
      else Inl (OutOfRange AU8BUFFER (int MAX_BUFFER)))"

text \<open>
  \<open>sendTxBuffer\<close>: append the CRC (\<open>u16crc >> 8\<close>, then \<open>u16crc & 0x00ff\<close>), write
  \<open>u8BufferSize\<close> bytes to the port, empty the buffer count, arm the watchdog and count
  the message.
\<close>

definition sendTxBuffer :: "u32 \<Rightarrow> modbus \<Rightarrow> fault + modbus" where
  "sendTxBuffer now st =
     fbind (calcCRC st (u8BufferSize st)) (\<lambda>u16crc.
     fbind (wr AU8BUFFER MAX_BUFFER (au8Buffer st) (uint (u8BufferSize st))
              (ucast (drop_bit 8 u16crc))) (\<lambda>buf1.
     let size1 = u8BufferSize st + 1 in
     fbind (wr AU8BUFFER MAX_BUFFER buf1 (uint size1) (ucast (u16crc AND 0x00ff))) (\<lambda>buf2.
     let size2 = size1 + 1 in
     Inr (st\<lparr>au8Buffer := buf2,
              port_tx := port_tx st @ [take (unat size2) buf2],
              u8BufferSize := 0,
              u32timeOut := now + ucast (u16timeOut st),
              u16OutCnt := u16OutCnt st + 1\<rparr>))))"

text \<open>
  The loop of \<open>getRxBuffer\<close>, \<open>while (port->available())\<close>, over the bytes that wait
  in the port.
\<close>

fun rx_drain :: "u8 list \<Rightarrow> u8 list \<Rightarrow> u8 \<Rightarrow> bool \<Rightarrow> fault + (u8 list \<times> u8 \<times> bool)" where
  "rx_drain [] buf bsize ovf = Inr (buf, bsize, ovf)"
| "rx_drain (b # rest) buf bsize ovf =
     (case wr AU8BUFFER MAX_BUFFER buf (uint bsize) b of
        Inl e \<Rightarrow> Inl e
      | Inr buf1 \<Rightarrow>
          rx_drain rest buf1 (bsize + 1) (if unat (bsize + 1) \<ge> MAX_BUFFER then True else ovf))"

definition getRxBuffer :: "modbus \<Rightarrow> fault + (i8 \<times> modbus)" where
  "getRxBuffer st =
     fbind (rx_drain (port_rx st) (au8Buffer st) 0 False) (\<lambda>(buf, bsize, bBuffOverflow).
     let st1 = st\<lparr>au8Buffer := buf, u8BufferSize := bsize, port_rx := [],
                   u16InCnt := u16InCnt st + 1\<rparr>
     in if bBuffOverflow then Inr (ERR_BUFF_OVERFLOW, st1\<lparr>u16errCnt := u16errCnt st1 + 1\<rparr>)
        else Inr (bsize, st1))"

section \<open>Validation\<close>

text \<open>
  The first test of \<open>validateRequest\<close> and of \<open>validateAnswer\<close>: the last two bytes of
  the frame, first one in the high half, against \<open>calcCRC(u8BufferSize - 2)\<close>.
\<close>

definition crc_matches :: "modbus \<Rightarrow> fault + bool" where
  "crc_matches st =
     fbind (rd AU8BUFFER MAX_BUFFER (au8Buffer st) (uint (u8BufferSize st) - 2)) (\<lambda>b1.
     fbind (rd AU8BUFFER MAX_BUFFER (au8Buffer st) (uint (u8BufferSize st) - 1)) (\<lambda>b2.
     let u16MsgCRC = word_hl b1 b2 in
     fbind (calcCRC st (u8BufferSize st - 2)) (\<lambda>crc. Inr (crc = u16MsgCRC))))"

text \<open>The \<open>switch\<close> of \<open>validateRequest\<close> that checks start address and quantity.\<close>

definition range_exception :: "u8 list \<Rightarrow> u8" where
  "range_exception buf =
     (let fc = buf ! FUNC;
          add = word_hl (buf ! ADD_HI) (buf ! ADD_LO);
          nb = word_hl (buf ! NB_HI) (buf ! NB_LO)
      in if fc = 1 \<or> fc = 2 \<or> fc = 15 then
           (if unat (add + nb) > SIZE_RW_BITS then EXC_ADDR_RANGE else 0)
         else if fc = 5 then
           (if unat add > SIZE_RW_BITS then EXC_ADDR_RANGE else 0)
         else if fc = 6 then
           (if unat add > SIZE_RW_REGS then EXC_ADDR_RANGE else 0)
         else if fc = 3 \<or> fc = 4 \<or> fc = 16 then
           (if unat (add + nb) > SIZE_RW_REGS then EXC_ADDR_RANGE else 0)
         else 0)"

definition validateRequest :: "modbus \<Rightarrow> fault + (u8 \<times> modbus)" where
  "validateRequest st =
     fbind (crc_matches st) (\<lambda>ok.
       if \<not> ok then Inr (NO_REPLY, st\<lparr>u16errCnt := u16errCnt st + 1\<rparr>)
       else if au8Buffer st ! FUNC \<notin> set fctsupported
         then Inr (EXC_FUNC_CODE, st\<lparr>u16errCnt := u16errCnt st + 1\<rparr>)
       else Inr (range_exception (au8Buffer st), st))"

definition validateAnswer :: "modbus \<Rightarrow> fault + (u8 \<times> modbus)" where
  "validateAnswer st =
     fbind (crc_matches st) (\<lambda>ok.
       if \<not> ok then Inr (NO_REPLY, st\<lparr>u16errCnt := u16errCnt st + 1\<rparr>)
       else if (au8Buffer st ! FUNC) AND 0x80 \<noteq> 0
         then Inr (ERR_EXCEPTION, st\<lparr>u16errCnt := u16errCnt st + 1\<rparr>)
       else if au8Buffer st ! FUNC \<notin> set fctsupported
         then Inr (EXC_FUNC_CODE, st\<lparr>u16errCnt := u16errCnt st + 1\<rparr>)
       else Inr (0, st))"

definition buildException :: "u8 \<Rightarrow> modbus \<Rightarrow> modbus" where
  "buildException u8exception st =
     (let u8func = au8Buffer st ! FUNC
      in st\<lparr>au8Buffer := (au8Buffer st)[ID := u8id st, FUNC := u8func + 0x80, 2 := u8exception],
            u8BufferSize := EXCEPTION_SIZE\<rparr>)"

section \<open>Slave: function code handlers\<close>

text \<open>
  \<open>process_FC1\<close>: the body of its loop over the coils, on the locals
  \<open>(au8Buffer, u8BufferSize, u8bitsno)\<close>.  The bit areas have
  \<open>SIZE_RW_BITS / 16 + 1\<close> words.
\<close>

definition fc1_body :: "u16 list \<Rightarrow> u16 \<Rightarrow> nat \<Rightarrow> u8 list \<times> u8 \<times> u8 \<Rightarrow> fault + (u8 list \<times> u8 \<times> u8)" where
  "fc1_body area u16StartCoil u16currentCoil s =
     (case s of (buf, bsize, u8bitsno) \<Rightarrow>
      let u16coil = u16StartCoil + of_nat u16currentCoil;
          u8currentRegister = (ucast (u16coil div 16) :: u8);
          u8currentBit = (ucast (u16coil mod 16) :: u8)
      in fbind (rd RW_BITAREA (SIZE_RW_BITS div 16 + 1) area (uint u8currentRegister)) (\<lambda>w.
         fbind (rd AU8BUFFER MAX_BUFFER buf (uint bsize)) (\<lambda>cur.
         fbind (wr AU8BUFFER MAX_BUFFER buf (uint bsize)
                  (bitWrite cur (unat u8bitsno) (bitRead w (unat u8currentBit)))) (\<lambda>buf1.
         let u8bitsno1 = u8bitsno + 1
         in if u8bitsno1 > 7 then Inr (buf1, bsize + 1, 0) else Inr (buf1, bsize, u8bitsno1)))))"

definition process_FC1 :: "u32 \<Rightarrow> modbus \<Rightarrow> fault + (i8 \<times> modbus)" where
  "process_FC1 now st =
     (let buf = au8Buffer st;
          u16StartCoil = word_hl (buf ! ADD_HI) (buf ! ADD_LO);
          u16Coilno = word_hl (buf ! NB_HI) (buf ! NB_LO);
          u8bytesno0 = (ucast (u16Coilno div 8) :: u8);
          u8bytesno = (if u16Coilno mod 8 \<noteq> 0 then u8bytesno0 + 1 else u8bytesno0);
          buf1 = buf[ADD_HI := u8bytesno]
      in fbind (for_loop (unat u16Coilno) 0 (fc1_body (rw_bitArea st) u16StartCoil)
                  (buf1, of_nat ADD_LO, 0)) (\<lambda>(buf2, bsize, u8bitsno).
         let bsize1 = (if u16Coilno mod 8 \<noteq> 0 then bsize + 1 else bsize);
             u8CopyBufferSize = bsize1 + 2
         in fbind (sendTxBuffer now (st\<lparr>au8Buffer := buf2, u8BufferSize := bsize1\<rparr>)) (\<lambda>st1.
            Inr (u8CopyBufferSize, st1))))"

text \<open>
  \<open>process_FC3\<close>.  Its loop is
  \<^verbatim>\<open>for (i = u16StartAdd; i < u16StartAdd + u16regsno; i++) {
    highByte(rw_regArea[i]) = au8Buffer[ u8BufferSize ];  u8BufferSize++;
    lowByte(rw_regArea[i]) = au8Buffer[ u8BufferSize ];   u8BufferSize++; }\<close>
  with \<open>uint8_t i\<close>.  The two assignments have the register on the left and the
  frame byte on the right, and are modelled as written: the frame byte goes into the
  high (low) byte of the register, and no byte of the frame is assigned.  The bound is
  a sum of two \<open>uint16_t\<close>, which wraps.  The line before the loop,
  \<open>au8Buffer[ 2 ] = u8regsno * 2\<close>, names a variable the function does not declare;
  it is read as the declared \<open>u16regsno\<close>.
\<close>

function fc3_loop :: "u16 \<Rightarrow> u8 list \<Rightarrow> u8 \<Rightarrow> u16 list \<Rightarrow> u8 \<Rightarrow> fault + (u16 list \<times> u8)" where
  "fc3_loop bound buf i regs bsize =
     (if ucast i < bound then
        (if unat i < SIZE_RW_REGS then
           (case rd AU8BUFFER MAX_BUFFER buf (uint bsize) of
              Inl e \<Rightarrow> Inl e
            | Inr h \<Rightarrow>
               (case rd AU8BUFFER MAX_BUFFER buf (uint (bsize + 1)) of
                  Inl e \<Rightarrow> Inl e
                | Inr l \<Rightarrow> fc3_loop bound buf (i + 1) (regs[unat i := word_hl h l]) (bsize + 2)))
         else Inl (OutOfRange RW_REGAREA (uint i)))
      else Inr (regs, bsize))"
  by pat_completeness auto
termination
proof (relation "measure (\<lambda>(bound, buf, i, regs, bsize). 256 - unat i)")
  show "wf (measure (\<lambda>(bound, buf, i, regs, bsize). 256 - unat i))"
    by simp
next
  fix bound :: u16 and buf :: "u8 list" and i :: u8 and regs :: "u16 list" and bsize :: u8
    and h l :: u8
  assume "unat i < SIZE_RW_REGS"
  then have "unat i < 16"
    by (simp add: SIZE_RW_REGS_def)
  then have "unat (i + 1) = unat i + 1"
    by (simp add: unat_word_ariths)
  moreover have "unat i < 256"
    using \<open>unat i < 16\<close> by simp
  ultimately show "((bound, buf, i + 1, regs[unat i := word_hl h l], bsize + 2),
        (bound, buf, i, regs, bsize)) \<in> measure (\<lambda>(bound, buf, i, regs, bsize). 256 - unat i)"
    by simp
qed

definition process_FC3 :: "u32 \<Rightarrow> modbus \<Rightarrow> fault + (i8 \<times> modbus)" where
  "process_FC3 now st =
     (let buf = au8Buffer st;
          u16StartAdd = word_hl (buf ! ADD_HI) (buf ! ADD_LO);
          u16regsno = word_hl (buf ! NB_HI) (buf ! NB_LO);
          buf1 = buf[2 := ucast (u16regsno * 2)]
      in fbind (fc3_loop (u16StartAdd + u16regsno) buf1 (ucast u16StartAdd) (rw_regArea st) 3)
           (\<lambda>(regs, bsize).
         let u8CopyBufferSize = bsize + 2
         in fbind (sendTxBuffer now
                     (st\<lparr>au8Buffer := buf1, u8BufferSize := bsize, rw_regArea := regs\<rparr>)) (\<lambda>st1.
            Inr (u8CopyBufferSize, st1))))"

definition process_FC5 :: "u32 \<Rightarrow> modbus \<Rightarrow> fault + (i8 \<times> modbus)" where
  "process_FC5 now st =
     (let buf = au8Buffer st;
          u16coil = word_hl (buf ! ADD_HI) (buf ! ADD_LO);
          u8currentRegister = (ucast (u16coil div 16) :: u8);
          u8currentBit = (ucast (u16coil mod 16) :: u8)
      in fbind (rd RW_BITAREA (SIZE_RW_BITS div 16 + 1) (rw_bitArea st) (uint u8currentRegister))
           (\<lambda>w.
         fbind (wr RW_BITAREA (SIZE_RW_BITS div 16 + 1) (rw_bitArea st) (uint u8currentRegister)
                  (bitWrite w (unat u8currentBit) (buf ! NB_HI = 0xff))) (\<lambda>area.
         fbind (sendTxBuffer now (st\<lparr>rw_bitArea := area, u8BufferSize := 6\<rparr>)) (\<lambda>st1.
            Inr (6 + 2, st1)))))"

text \<open>\<open>process_FC6\<close>: \<open>rw_regArea[ u8add ] = u16val;\<close> and the echo of the header.\<close>

definition process_FC6 :: "u32 \<Rightarrow> modbus \<Rightarrow> fault + (i8 \<times> modbus)" where
  "process_FC6 now st =
     (let buf = au8Buffer st;
          u8add = word_hl (buf ! ADD_HI) (buf ! ADD_LO);
          u16val = word_hl (buf ! NB_HI) (buf ! NB_LO)
      in fbind (wr RW_REGAREA SIZE_RW_REGS (rw_regArea st) (uint u8add) u16val) (\<lambda>regs.
         fbind (sendTxBuffer now (st\<lparr>rw_regArea := regs, u8BufferSize := RESPONSE_SIZE\<rparr>)) (\<lambda>st1.
            Inr (RESPONSE_SIZE + 2, st1))))"

text \<open>
  \<open>process_FC15\<close>: the body of its loop, on the locals
  \<open>(rw_bitArea, u8frameByte, u8bitsno)\<close>.
\<close>

definition fc15_body :: "u8 list \<Rightarrow> u16 \<Rightarrow> nat \<Rightarrow> u16 list \<times> u8 \<times> u8 \<Rightarrow> fault + (u16 list \<times> u8 \<times> u8)" where
  "fc15_body buf u16StartCoil u16currentCoil s =
     (case s of (area, u8frameByte, u8bitsno) \<Rightarrow>
      let u16coil = u16StartCoil + of_nat u16currentCoil;
          u8currentRegister = (ucast (u16coil div 16) :: u8);
          u8currentBit = (ucast (u16coil mod 16) :: u8)
      in fbind (rd AU8BUFFER MAX_BUFFER buf (uint u8frameByte)) (\<lambda>fb.
         let bTemp = bitRead fb (unat u8bitsno)
         in fbind (rd RW_BITAREA (SIZE_RW_BITS div 16 + 1) area (uint u8currentRegister)) (\<lambda>w.
            fbind (wr RW_BITAREA (SIZE_RW_BITS div 16 + 1) area (uint u8currentRegister)
                     (bitWrite w (unat u8currentBit) bTemp)) (\<lambda>area1.
            let u8bitsno1 = u8bitsno + 1
            in if u8bitsno1 > 7 then Inr (area1, u8frameByte + 1, 0)
               else Inr (area1, u8frameByte, u8bitsno1)))))"

definition process_FC15 :: "u32 \<Rightarrow> modbus \<Rightarrow> fault + (i8 \<times> modbus)" where
  "process_FC15 now st =
     (let buf = au8Buffer st;
          u16StartCoil = word_hl (buf ! ADD_HI) (buf ! ADD_LO);
          u16Coilno = word_hl (buf ! NB_HI) (buf ! NB_LO)
      in fbind (for_loop (unat u16Coilno) 0 (fc15_body buf u16StartCoil) (rw_bitArea st, 7, 0))
           (\<lambda>(area, u8frameByte, u8bitsno).
         fbind (sendTxBuffer now (st\<lparr>rw_bitArea := area, u8BufferSize := 6\<rparr>)) (\<lambda>st1.
            Inr (6 + 2, st1))))"

text \<open>
  \<open>process_FC16\<close>: the body of its loop \<open>for (i = 0; i < u8regsno; i++)\<close>.  The counter
  is a \<open>uint8_t\<close>; it cannot pass 255, because the frame read at \<open>7 + 2 i\<close> leaves
  the buffer from \<open>i = 29\<close> on.
\<close>

definition fc16_body :: "u8 list \<Rightarrow> u16 \<Rightarrow> nat \<Rightarrow> u16 list \<Rightarrow> fault + u16 list" where
  "fc16_body buf u8StartAdd i regs =
     fbind (rd AU8BUFFER MAX_BUFFER buf (int (BYTE_CNT + 1) + int i * 2)) (\<lambda>h.
     fbind (rd AU8BUFFER MAX_BUFFER buf (int (BYTE_CNT + 2) + int i * 2)) (\<lambda>l.
     wr RW_REGAREA SIZE_RW_REGS regs (uint (u8StartAdd + ucast (of_nat i :: u8))) (word_hl h l)))"

definition process_FC16 :: "u32 \<Rightarrow> modbus \<Rightarrow> fault + (i8 \<times> modbus)" where
  "process_FC16 now st =
     (let buf = au8Buffer st;
          u8StartAdd = word_hl (buf ! ADD_HI) (buf ! ADD_LO);
          u8regsno = word_hl (buf ! NB_HI) (buf ! NB_LO);
          buf1 = buf[NB_HI := 0, NB_LO := ucast u8regsno]
      in fbind (for_loop (unat u8regsno) 0 (fc16_body buf1 u8StartAdd) (rw_regArea st)) (\<lambda>regs.
         fbind (sendTxBuffer now
                  (st\<lparr>au8Buffer := buf1, rw_regArea := regs, u8BufferSize := RESPONSE_SIZE\<rparr>))
           (\<lambda>st1.
            Inr (RESPONSE_SIZE + 2, st1))))"

section \<open>Slave: poll\<close>

text \<open>
  The second \<open>Modbus::poll\<close> of the file, the one for the slave.  Its first two
  statements copy \<open>regs\<close> and \<open>u8size\<close>, which this version no longer declares, into
  members that the slave never reads; they are left out.  Function codes 1 and 2 both
  go to \<open>process_FC1\<close>, codes 3 and 4 both to \<open>process_FC3\<close>, as the \<open>switch\<close>
  has it.
\<close>

definition dispatch :: "u32 \<Rightarrow> i8 \<Rightarrow> modbus \<Rightarrow> fault + (i8 \<times> modbus)" where
  "dispatch now i8state st =
     (let fc = au8Buffer st ! FUNC
      in if fc = 1 \<or> fc = 2 then process_FC1 now st
         else if fc = 4 \<or> fc = 3 then process_FC3 now st
         else if fc = 5 then process_FC5 now st
         else if fc = 6 then process_FC6 now st
         else if fc = 15 then process_FC15 now st
         else if fc = 16 then process_FC16 now st
         else Inr (i8state, st))"

definition poll_slave :: "u32 \<Rightarrow> modbus \<Rightarrow> fault + (i8 \<times> modbus)" where
  "poll_slave now st =
     (let u8current = (of_nat (length (port_rx st)) :: u8)
      in if u8current = 0 then Inr (0, st)
         else if u8current \<noteq> u8lastRec st
           then Inr (0, st\<lparr>u8lastRec := u8current, u32time := now + T35\<rparr>)
         else if silence_pending now st then Inr (0, st)
         else
           fbind (getRxBuffer (st\<lparr>u8lastRec := 0\<rparr>)) (\<lambda>(i8state, st1).
           let st2 = st1\<lparr>u8lastError := i8state\<rparr>
           in if sint i8state < 7 then Inr (i8state, st2)
              else if au8Buffer st2 ! ID \<noteq> u8id st2 then Inr (0, st2)
              else
                fbind (validateRequest st2) (\<lambda>(u8exception, st3).
                if u8exception > 0 then
                  fbind (if u8exception \<noteq> NO_REPLY
                         then sendTxBuffer now (buildException u8exception st3)
                         else Inr st3) (\<lambda>st4.
                  Inr (u8exception, st4\<lparr>u8lastError := u8exception\<rparr>))
                else
                  dispatch now i8state
                    (st3\<lparr>u32timeOut := now + ucast (u16timeOut st3), u8lastError := 0\<rparr>))))"

section \<open>Master: query and poll\<close>

text \<open>The query structure \<open>modbus_t\<close>; \<open>au16reg\<close> is the caller's memory image.\<close>

record modbus_t =
  tg_u8id :: u8
  u8fct :: u8
  u16RegAdd :: u16
  u16CoilsNo :: u16
  au16reg :: "u16 list"

text \<open>
  The body of the loop of \<open>query\<close> for function 16, on the locals
  \<open>(au8Buffer, u8BufferSize)\<close>.
\<close>

definition query16_body :: "u16 list \<Rightarrow> nat \<Rightarrow> u8 list \<times> u8 \<Rightarrow> fault + (u8 list \<times> u8)" where
  "query16_body regs i s =
     (case s of (buf, bsize) \<Rightarrow>
      fbind (rd AU16REGS (length regs) regs (int i)) (\<lambda>v.
      fbind (wr AU8BUFFER MAX_BUFFER buf (uint bsize) (highByte v)) (\<lambda>buf1.
      fbind (wr AU8BUFFER MAX_BUFFER buf1 (uint (bsize + 1)) (lowByte v)) (\<lambda>buf2.
      Inr (buf2, bsize + 2)))))"

text \<open>
  The \<open>switch\<close> of \<open>query\<close>.  For function 15 the loop over the coils has an empty
  body; for a function code outside the list nothing is stored and \<open>u8BufferSize\<close>
  keeps its value.
\<close>

definition query_payload :: "modbus_t \<Rightarrow> modbus \<Rightarrow> fault + modbus" where
  "query_payload telegram st =
     (let fc = u8fct telegram; buf = au8Buffer st; regs = au16regs st
      in if fc = 1 \<or> fc = 2 \<or> fc = 3 \<or> fc = 4 then
           Inr (st\<lparr>au8Buffer := buf[NB_HI := highByte (u16CoilsNo telegram),
                                      NB_LO := lowByte (u16CoilsNo telegram)],
                   u8BufferSize := 6\<rparr>)
         else if fc = 5 then
           fbind (rd AU16REGS (length regs) regs 0) (\<lambda>v.
           Inr (st\<lparr>au8Buffer := buf[NB_HI := (if v > 0 then 0xff else 0), NB_LO := 0],
                   u8BufferSize := 6\<rparr>))
         else if fc = 6 then
           fbind (rd AU16REGS (length regs) regs 0) (\<lambda>v.
           Inr (st\<lparr>au8Buffer := buf[NB_HI := highByte v, NB_LO := lowByte v],
                   u8BufferSize := 6\<rparr>))
         else if fc = 15 then
           (let u8regsno = (ucast (u16CoilsNo telegram div 16) :: u8);
                u8bytesno0 = u8regsno * 2;
                u8bytesno = (if u16CoilsNo telegram mod 16 \<noteq> 0 then u8bytesno0 + 1
                             else u8bytesno0)
            in Inr (st\<lparr>au8Buffer := buf[NB_HI := highByte (u16CoilsNo telegram),
                                         NB_LO := lowByte (u16CoilsNo telegram),
                                         NB_LO + 1 := u8bytesno],
                      u8BufferSize := 7\<rparr>))
         else if fc = 16 then
           fbind (for_loop (unat (u16CoilsNo telegram)) 0 (query16_body regs)
                    (buf[NB_HI := highByte (u16CoilsNo telegram),
                         NB_LO := lowByte (u16CoilsNo telegram),
                         NB_LO + 1 := ucast (u16CoilsNo telegram * 2)], 7)) (\<lambda>(buf1, bsize).
           Inr (st\<lparr>au8Buffer := buf1, u8BufferSize := bsize\<rparr>))
         else Inr st)"

text \<open>
  \<open>query\<close>.  The three refusals come first.  The source returns the literals \<open>-2\<close>,
  \<open>-1\<close> and \<open>-3\<close> there, not names of \<open>enum ERR_LIST\<close>.
\<close>

definition query :: "u32 \<Rightarrow> modbus_t \<Rightarrow> modbus \<Rightarrow> fault + (i8 \<times> modbus)" where
  "query now telegram st =
     (if u8id st \<noteq> 0 then Inr (- 2, st)
      else if u8state st \<noteq> COM_IDLE then Inr (- 1, st)
      else if tg_u8id telegram = 0 \<or> tg_u8id telegram > 247 then Inr (- 3, st)
      else
        (let st1 = st\<lparr>au16regs := au16reg telegram,
                      au8Buffer := (au8Buffer st)[ID := tg_u8id telegram,
                                                  FUNC := u8fct telegram,
                                                  ADD_HI := highByte (u16RegAdd telegram),
                                                  ADD_LO := lowByte (u16RegAdd telegram)]\<rparr>
         in fbind (query_payload telegram st1) (\<lambda>st2.
            fbind (sendTxBuffer now st2) (\<lambda>st3.
            Inr (0, st3\<lparr>u8state := COM_WAITING\<rparr>)))))"

text \<open>
  \<open>get_FC3\<close>: copies the words of the answer into the caller's memory.  \<open>get_FC1\<close> has
  no statement left outside comments.
\<close>

definition get_FC3_body :: "u8 list \<Rightarrow> nat \<Rightarrow> u16 list \<Rightarrow> fault + u16 list" where
  "get_FC3_body buf i regs =
     fbind (rd AU8BUFFER MAX_BUFFER buf (3 + int i * 2)) (\<lambda>h.
     fbind (rd AU8BUFFER MAX_BUFFER buf (3 + int i * 2 + 1)) (\<lambda>l.
     wr AU16REGS (length regs) regs (int i) (word_hl h l)))"

definition get_FC3 :: "modbus \<Rightarrow> fault + modbus" where
  "get_FC3 st =
     fbind (for_loop (unat (au8Buffer st ! 2 div 2)) 0 (get_FC3_body (au8Buffer st)) (au16regs st))
       (\<lambda>regs. Inr (st\<lparr>au16regs := regs\<rparr>))"

text \<open>The first \<open>Modbus::poll\<close> of the file, the one for the master.\<close>

definition poll :: "u32 \<Rightarrow> modbus \<Rightarrow> fault + (i8 \<times> modbus)" where
  "poll now st =
     (let u8current = (of_nat (length (port_rx st)) :: u8)
      in if now > u32timeOut st
           then Inr (0, st\<lparr>u8state := COM_IDLE, u8lastError := NO_REPLY,
                           u16errCnt := u16errCnt st + 1\<rparr>)
         else if u8current = 0 then Inr (0, st)
         else if u8current \<noteq> u8lastRec st
           then Inr (0, st\<lparr>u8lastRec := u8current, u32time := now + T35\<rparr>)
         else if silence_pending now st then Inr (0, st)
         else
           fbind (getRxBuffer (st\<lparr>u8lastRec := 0\<rparr>)) (\<lambda>(i8state, st1).
           if sint i8state < 7
             then Inr (i8state, st1\<lparr>u8state := COM_IDLE, u16errCnt := u16errCnt st1 + 1\<rparr>)
           else
             fbind (validateAnswer st1) (\<lambda>(u8exception, st2).
             if u8exception \<noteq> 0 then Inr (u8exception, st2\<lparr>u8state := COM_IDLE\<rparr>)
             else
               fbind (let fc = au8Buffer st2 ! FUNC
                      in if fc = 4 \<or> fc = 3 then get_FC3 st2 else Inr st2) (\<lambda>st3.
               Inr (u8BufferSize st3, st3\<lparr>u8state := COM_IDLE\<rparr>)))))"

section \<open>Register store accessors\<close>

text \<open>
  The accessors at the end of the file return \<open>0\<close>, \<open>ERROR_OF_ADR\<close> or
  \<open>ERROR_OF_POINTER\<close>.  The file does not define the two macros; the model keeps
  them as names.  A pointer argument is \<open>None\<close> for \<open>NULL\<close> and otherwise holds the
  caller's variable or array.  The sum \<open>adrReg + nRegs\<close> of two \<open>uint16_t\<close> is an
  \<open>unsigned int\<close> of 16 bits on this target.  The loops of the multi-register
  accessors are written \<open>for (uint16_t i = 0; i < nRegs; ++)\<close> and are read with the
  missing \<open>i\<close>.
\<close>

datatype reg_status = REG_OK | ERROR_OF_ADR | ERROR_OF_POINTER

definition GetRReg :: "modbus \<Rightarrow> u16 \<Rightarrow> u16 option \<Rightarrow> reg_status \<times> u16 option" where
  "GetRReg st adrReg pReg =
     (if unat adrReg \<ge> SIZE_R_REGS then (ERROR_OF_ADR, pReg)
      else case pReg of
             None \<Rightarrow> (ERROR_OF_POINTER, None)
           | Some old \<Rightarrow> (REG_OK, Some (r_regArea st ! unat adrReg)))"

definition GetRWReg :: "modbus \<Rightarrow> u16 \<Rightarrow> u16 option \<Rightarrow> reg_status \<times> u16 option" where
  "GetRWReg st adrReg pReg =
     (if unat adrReg \<ge> SIZE_RW_REGS then (ERROR_OF_ADR, pReg)
      else case pReg of
             None \<Rightarrow> (ERROR_OF_POINTER, None)
           | Some old \<Rightarrow> (REG_OK, Some (rw_regArea st ! unat adrReg)))"

definition copy_reg :: "array_id \<Rightarrow> nat \<Rightarrow> u16 list \<Rightarrow> u16 \<Rightarrow> nat \<Rightarrow> u16 list \<Rightarrow> fault + u16 list" where
  "copy_reg a n area adrReg i pRegs =
     fbind (rd a n area (uint (adrReg + of_nat i))) (\<lambda>v.
     wr PREGS (length pRegs) pRegs (int i) v)"

definition GetRRegs :: "modbus \<Rightarrow> u16 \<Rightarrow> u16 list option \<Rightarrow> u16 \<Rightarrow> fault + (reg_status \<times> u16 list option)" where
  "GetRRegs st adrReg pRegs nRegs =
     (if unat (adrReg + nRegs) \<ge> SIZE_R_REGS then Inr (ERROR_OF_ADR, pRegs)
      else case pRegs of
             None \<Rightarrow> Inr (ERROR_OF_POINTER, None)
           | Some out \<Rightarrow>
               fbind (for_loop (unat nRegs) 0
                        (copy_reg R_REGAREA SIZE_R_REGS (r_regArea st) adrReg) out) (\<lambda>out1.
               Inr (REG_OK, Some out1)))"

definition GetRWRegs :: "modbus \<Rightarrow> u16 \<Rightarrow> u16 list option \<Rightarrow> u16 \<Rightarrow> fault + (reg_status \<times> u16 list option)" where
  "GetRWRegs st adrReg pRegs nRegs =
     (if unat (adrReg + nRegs) \<ge> SIZE_RW_REGS then Inr (ERROR_OF_ADR, pRegs)
      else case pRegs of
             None \<Rightarrow> Inr (ERROR_OF_POINTER, None)
           | Some out \<Rightarrow>
               fbind (for_loop (unat nRegs) 0
                        (copy_reg RW_REGAREA SIZE_RW_REGS (rw_regArea st) adrReg) out) (\<lambda>out1.
               Inr (REG_OK, Some out1)))"

section \<open>Frames on the wire\<close>

text \<open>
  The CRC test of \<open>validateRequest\<close> and \<open>validateAnswer\<close> on a frame given as a list
  (lemma \<open>crc_matches_loaded\<close> below); what the two functions answer once \<open>getRxBuffer\<close>
  has drained a frame from the port; and what \<open>sendTxBuffer\<close> hands to the port when the
  buffer holds the message \<open>msg\<close> (lemma \<open>sendTxBuffer_emits\<close> below).
\<close>

definition crc_valid :: "u8 list \<Rightarrow> bool" where
  "crc_valid frame \<longleftrightarrow>
     crc16 (take (length frame - 2) frame) =
       word_hl (frame ! (length frame - 2)) (frame ! (length frame - 1))"

definition revalidate_request :: "modbus \<Rightarrow> u8 list \<Rightarrow> fault + u8" where
  "revalidate_request r frame =
     fbind (getRxBuffer (r\<lparr>port_rx := frame\<rparr>)) (\<lambda>(c, r1).
     fbind (validateRequest r1) (\<lambda>(u8exception, r2). Inr u8exception))"

definition revalidate_answer :: "modbus \<Rightarrow> u8 list \<Rightarrow> fault + u8" where
  "revalidate_answer r frame =
     fbind (getRxBuffer (r\<lparr>port_rx := frame\<rparr>)) (\<lambda>(c, r1).
     fbind (validateAnswer r1) (\<lambda>(u8exception, r2). Inr u8exception))"

definition tx_frame :: "u8 list \<Rightarrow> u8 list" where
  "tx_frame msg = msg @ [ucast (drop_bit 8 (crc16 msg)), ucast (crc16 msg AND 0x00ff)]"

section \<open>Auxiliary facts\<close>

subsection \<open>The CRC is injective in every byte\<close>

lemma and1_odd: "(t :: u16) AND 1 \<noteq> 0 \<longleftrightarrow> odd t"
  by (simp add: and_one_eq odd_iff_mod_2_eq_one)

lemma bit15_drop: "\<not> bit (drop_bit 1 (t::u16)) 15"
  by (auto simp add: bit_simps dest: bit_imp_le_length)

lemma bit15_shift: "bit (crc_shift t) 15 \<longleftrightarrow> odd t"
  using bit15_drop[of t]
  unfolding crc_shift_def Let_def and1_odd
  by (simp add: bit_simps)

lemma xor_cancel_r: "(x::u16) XOR c = y XOR c \<Longrightarrow> x = y"
  by (metis xor.right_neutral xor.assoc xor_self_eq)

lemma crc_shift_inj: 
  assumes "crc_shift a = crc_shift b" shows "a = b"
proof -
  have o: "odd a \<longleftrightarrow> odd b" using assms bit15_shift by metis
  have d: "drop_bit 1 a = drop_bit 1 b"
    using assms o unfolding crc_shift_def Let_def and1_odd by (auto split: if_splits dest: xor_cancel_r)
  show ?thesis
  proof (rule bit_eqI)
    fix n
    show "bit a n = bit b n"
    proof (cases n)
      case 0 then show ?thesis using o by (simp add: bit_0)
    next
      case (Suc m)
      have "bit (drop_bit 1 a) m = bit (drop_bit 1 b) m" using d by simp
      then show ?thesis using Suc by (simp add: bit_drop_bit_eq)
    qed
  qed
qed

lemma crc_shift8_inj: "(crc_shift ^^ 8) a = (crc_shift ^^ 8) b \<Longrightarrow> a = b"
proof -
  have "inj crc_shift" by (rule injI) (rule crc_shift_inj)
  then have "inj (crc_shift ^^ 8)" by (rule inj_fn)
  then show "(crc_shift ^^ 8) a = (crc_shift ^^ 8) b \<Longrightarrow> a = b" by (rule injD)
qed

lemma mask_FF: "(w::u16) AND 0xFF = take_bit 8 w"
proof -
  have "(0xFF::u16) = mask 8" by (simp add: mask_eq_exp_minus_1)
  then show ?thesis by (simp add: take_bit_eq_mask)
qed

lemma mask_FFFF: "(w::u16) AND 0xFFFF = w"
proof -
  have "(0xFFFF::u16) = - 1" by simp
  then show ?thesis by (simp only: and.right_neutral)
qed

lemma crc_byte_inj_state: "crc_byte s b = crc_byte t b \<Longrightarrow> s = t"
  unfolding crc_byte_def
  by (metis crc_shift8_inj xor_cancel_r)

lemma ucast_back: "(ucast ((ucast (a::u8))::u16) :: u8) = a"
  by (rule bit_word_eqI) (auto simp add: bit_simps)

lemma ucast_u8_u16_inj: "(ucast (a::u8) :: u16) = ucast b \<Longrightarrow> a = b"
  by (metis ucast_back)

lemma xor_cancel_l: "(c::u16) XOR x = c XOR y \<Longrightarrow> x = y"
  by (metis xor_cancel_r xor.commute)

lemma crc_byte_inj_byte: "crc_byte s a = crc_byte s b \<Longrightarrow> a = b"
  unfolding crc_byte_def
  by (metis crc_shift8_inj xor_cancel_l ucast_u8_u16_inj)

lemma foldl_crc_inj: "foldl crc_byte s xs = foldl crc_byte t xs \<Longrightarrow> s = t"
  by (induction xs arbitrary: s t) (auto dest: crc_byte_inj_state)

lemma crc_swap_swap: "crc_swap (crc_swap a) = a"
  unfolding crc_swap_def Let_def mask_FFFF
  by (rule bit_word_eqI) (auto simp add: bit_simps)

lemma crc_swap_inj: "crc_swap a = crc_swap b \<Longrightarrow> a = b"
  by (metis crc_swap_swap)

lemma crc16_change_byte:
  assumes "b \<noteq> b'"
  shows "crc16 (pre @ b # post) \<noteq> crc16 (pre @ b' # post)"
  using assms unfolding crc16_def
  by (auto dest!: crc_swap_inj foldl_crc_inj crc_byte_inj_byte)

lemma hi_lo_word: "word_hl (ucast (drop_bit 8 c)) (ucast (c AND 0x00ff)) = (c::u16)"
  unfolding word_hl_def mask_FF
  by (rule bit_word_eqI) (auto simp add: bit_simps)

lemma highByte_word_hl: "highByte (word_hl a b) = a"
  unfolding word_hl_def highByte_def
  by (rule bit_word_eqI) (auto simp add: bit_simps dest: bit_imp_le_length)

lemma lowByte_word_hl: "lowByte (word_hl a b) = b"
  unfolding word_hl_def lowByte_def mask_FF
  by (rule bit_word_eqI) (auto simp add: bit_simps)

lemma word_hl_inj: "word_hl a b = word_hl c d \<Longrightarrow> a = c \<and> b = d"
  by (metis highByte_word_hl lowByte_word_hl)

subsection \<open>Buffer accesses within range\<close>

lemma fbind_Inr [simp]: "fbind (Inr x) f = f x"
  by (simp add: fbind_def)

lemma fbind_Inl [simp]: "fbind (Inl e) f = Inl e"
  by (simp add: fbind_def)

lemma unat_u8_succ: "unat (b::u8) < 64 \<Longrightarrow> unat (b + 1) = unat b + 1"
  by (simp add: unat_word_ariths)

lemma uint_less_of_unat: "unat w < n \<Longrightarrow> uint w < int n"
  by (metis of_nat_less_iff uint_nat)

lemma wr_in_range: "unat w < n \<Longrightarrow> wr a n xs (uint w) v = Inr (xs[unat w := v])"
  by (simp add: wr_def uint_less_of_unat)

lemma rd_in_range: "unat w < n \<Longrightarrow> rd a n xs (uint w) = Inr (xs ! unat w)"
  by (simp add: rd_def uint_less_of_unat)

lemma rx_drain_fits:
  "length buf = MAX_BUFFER \<Longrightarrow> unat bsize + length rx \<le> MAX_BUFFER \<Longrightarrow>
   rx_drain rx buf bsize ovf =
     Inr (take (unat bsize) buf @ rx @ drop (unat bsize + length rx) buf,
          bsize + of_nat (length rx),
          ovf \<or> (rx \<noteq> [] \<and> MAX_BUFFER \<le> unat bsize + length rx))"
proof (induction rx arbitrary: buf bsize ovf)
  case Nil
  then show ?case by simp
next
  case (Cons b rest)
  from Cons.prems have lt: "unat bsize < 64" by (simp add: MAX_BUFFER_def)
  then have suc: "unat (bsize + 1) = unat bsize + 1" by (rule unat_u8_succ)
  have len: "length (buf[unat bsize := b]) = MAX_BUFFER" using Cons.prems by simp
  have fits: "unat (bsize + 1) + length rest \<le> MAX_BUFFER" using Cons.prems suc by simp
  have ih: "rx_drain rest (buf[unat bsize := b]) (bsize + 1)
      (if unat (bsize + 1) \<ge> MAX_BUFFER then True else ovf) =
     Inr (take (unat (bsize + 1)) (buf[unat bsize := b]) @ rest @
            drop (unat (bsize + 1) + length rest) (buf[unat bsize := b]),
          bsize + 1 + of_nat (length rest),
          (if unat (bsize + 1) \<ge> MAX_BUFFER then True else ovf) \<or>
            (rest \<noteq> [] \<and> MAX_BUFFER \<le> unat (bsize + 1) + length rest))"
    by (rule Cons.IH[OF len fits])
  have w: "wr AU8BUFFER MAX_BUFFER buf (uint bsize) b = Inr (buf[unat bsize := b])"
    using lt by (simp add: wr_in_range MAX_BUFFER_def)
  have t: "take (unat (bsize + 1)) (buf[unat bsize := b]) = take (unat bsize) buf @ [b]"
    using lt Cons.prems(1) by (simp add: suc take_Suc_conv_app_nth MAX_BUFFER_def)
  have d: "drop (unat (bsize + 1) + length rest) (buf[unat bsize := b]) =
           drop (unat bsize + length (b # rest)) buf"
    by (simp add: suc)
  have o: "((if unat (bsize + 1) \<ge> MAX_BUFFER then True else ovf) \<or>
            (rest \<noteq> [] \<and> MAX_BUFFER \<le> unat (bsize + 1) + length rest)) =
           (ovf \<or> (b # rest \<noteq> [] \<and> MAX_BUFFER \<le> unat bsize + length (b # rest)))"
    using fits by (auto simp add: suc)
  show ?case
    unfolding rx_drain.simps w using ih unfolding o by (simp add: t d add.assoc)
qed

lemma rx_drain_overrun:
  "length buf = MAX_BUFFER \<Longrightarrow> unat bsize \<le> MAX_BUFFER \<Longrightarrow>
   MAX_BUFFER < unat bsize + length rx \<Longrightarrow>
   rx_drain rx buf bsize ovf = Inl (OutOfRange AU8BUFFER (int MAX_BUFFER))"
proof (induction rx arbitrary: buf bsize ovf)
  case Nil
  then show ?case by simp
next
  case (Cons b rest)
  show ?case
  proof (cases "unat bsize = MAX_BUFFER")
    case True
    then have "uint bsize = int MAX_BUFFER"
      by (metis uint_nat)
    then show ?thesis
      by (simp add: wr_def)
  next
    case False
    with Cons.prems have lt: "unat bsize < 64" by (simp add: MAX_BUFFER_def)
    then have suc: "unat (bsize + 1) = unat bsize + 1" by (rule unat_u8_succ)
    have w: "wr AU8BUFFER MAX_BUFFER buf (uint bsize) b = Inr (buf[unat bsize := b])"
      using lt by (simp add: wr_in_range MAX_BUFFER_def)
    have "rx_drain rest (buf[unat bsize := b]) (bsize + 1)
            (if unat (bsize + 1) \<ge> MAX_BUFFER then True else ovf) =
          Inl (OutOfRange AU8BUFFER (int MAX_BUFFER))"
      using Cons.prems lt by (intro Cons.IH) (simp_all add: suc MAX_BUFFER_def)
    then show ?thesis
      unfolding rx_drain.simps w by simp
  qed
qed

lemma unat_of_nat_u8: "n \<le> 64 \<Longrightarrow> unat (of_nat n :: u8) = n"
  by (simp add: unat_of_nat)

lemma getRxBuffer_loads:
  assumes "length (au8Buffer r) = MAX_BUFFER" and "length frame \<le> MAX_BUFFER"
  shows "\<exists>c r'. getRxBuffer (r\<lparr>port_rx := frame\<rparr>) = Inr (c, r') \<and>
           au8Buffer r' = frame @ drop (length frame) (au8Buffer r) \<and>
           u8BufferSize r' = of_nat (length frame)"
proof -
  have "rx_drain frame (au8Buffer r) 0 False =
        Inr (frame @ drop (length frame) (au8Buffer r), of_nat (length frame),
             frame \<noteq> [] \<and> MAX_BUFFER \<le> length frame)"
    using rx_drain_fits[of "au8Buffer r" 0 frame False] assms by simp
  then show ?thesis
    by (simp add: getRxBuffer_def Let_def)
qed

lemma crc_matches_loaded:
  assumes "au8Buffer r = frame @ rest" and "u8BufferSize r = of_nat (length frame)"
    and "length (au8Buffer r) = MAX_BUFFER" and "2 \<le> length frame"
  shows "crc_matches r =
     Inr (crc16 (take (length frame - 2) frame) =
          word_hl (frame ! (length frame - 2)) (frame ! (length frame - 1)))"
proof -
  have le: "length frame \<le> 64" using assms(1,3) by (simp add: MAX_BUFFER_def)
  have u: "unat (u8BufferSize r) = length frame"
    using le assms(2) by (simp add: unat_of_nat_u8)
  then have ui: "uint (u8BufferSize r) = int (length frame)"
    by (metis uint_nat)
  have m2: "unat (u8BufferSize r - 2) = length frame - 2"
    using u assms(4) by (simp add: unat_sub word_le_nat_alt)
  have lt2: "length frame - 2 < length frame" and lt1: "length frame - 1 < length frame"
    using assms(4) by arith+
  have r1: "rd AU8BUFFER MAX_BUFFER (au8Buffer r) (uint (u8BufferSize r) - 2) =
              Inr (frame ! (length frame - 2))"
    using le assms(1,4) lt1 lt2 by (auto simp add: rd_def ui MAX_BUFFER_def nth_append nat_diff_distrib)
  have r2: "rd AU8BUFFER MAX_BUFFER (au8Buffer r) (uint (u8BufferSize r) - 1) =
              Inr (frame ! (length frame - 1))"
    using le assms(1,4) lt1 lt2 by (auto simp add: rd_def ui MAX_BUFFER_def nth_append nat_diff_distrib)
  have c: "calcCRC r (u8BufferSize r - 2) = Inr (crc16 (take (length frame - 2) frame))"
    using le assms(1) by (simp add: calcCRC_def m2 MAX_BUFFER_def)
  show ?thesis
    by (simp add: crc_matches_def r1 r2 c)
qed


lemma sendTxBuffer_emits:
  assumes "length (au8Buffer s) = MAX_BUFFER" and "unat (u8BufferSize s) + 2 \<le> MAX_BUFFER"
  shows "\<exists>s'. sendTxBuffer now s = Inr s' \<and>
           port_tx s' = port_tx s @
             [take (unat (u8BufferSize s)) (au8Buffer s) @
              [ucast (drop_bit 8 (crc16 (take (unat (u8BufferSize s)) (au8Buffer s)))),
               ucast (crc16 (take (unat (u8BufferSize s)) (au8Buffer s)) AND 0x00ff)]] \<and>
           u32timeOut s' = now + ucast (u16timeOut s) \<and>
           u16OutCnt s' = u16OutCnt s + 1 \<and> u8BufferSize s' = 0 \<and>
           u8state s' = u8state s \<and> u8id s' = u8id s \<and> u16errCnt s' = u16errCnt s \<and>
           u8lastError s' = u8lastError s \<and> port_rx s' = port_rx s"
proof -
  define n where "n = unat (u8BufferSize s)"
  have n: "n + 2 \<le> 64" using assms(2) by (simp add: n_def MAX_BUFFER_def)
  have len: "length (au8Buffer s) = 64" using assms(1) by (simp add: MAX_BUFFER_def)
  have c: "calcCRC s (u8BufferSize s) = Inr (crc16 (take n (au8Buffer s)))"
    using n by (simp add: calcCRC_def n_def MAX_BUFFER_def)
  have s1: "unat (u8BufferSize s + 1) = n + 1"
    using n by (simp add: n_def unat_u8_succ)
  have s2: "unat (u8BufferSize s + 1 + 1) = n + 2"
    using n s1 unat_u8_succ[of "u8BufferSize s + 1"] by simp
  have w1: "\<And>buf v. wr AU8BUFFER MAX_BUFFER buf (uint (u8BufferSize s)) v = Inr (buf[n := v])"
    using n by (simp add: wr_in_range n_def MAX_BUFFER_def)
  have w2: "\<And>buf v. wr AU8BUFFER MAX_BUFFER buf (uint (u8BufferSize s + 1)) v = Inr (buf[n + 1 := v])"
    using n wr_in_range[of "u8BufferSize s + 1" MAX_BUFFER] by (simp add: s1 MAX_BUFFER_def)
  have t: "\<And>a b. take (n + 2) ((au8Buffer s)[n := a, n + 1 := b]) = take n (au8Buffer s) @ [a, b]"
  proof -
    fix a b
    have "take (Suc (Suc n)) ((au8Buffer s)[n := a, Suc n := b]) =
          take (Suc n) ((au8Buffer s)[n := a, Suc n := b]) @ [b]"
      using n len by (simp add: take_Suc_conv_app_nth[of "Suc n"])
    also have "take (Suc n) ((au8Buffer s)[n := a, Suc n := b]) = take n (au8Buffer s) @ [a]"
      using n len by (simp add: take_Suc_conv_app_nth[of n])
    finally show "take (n + 2) ((au8Buffer s)[n := a, n + 1 := b]) = take n (au8Buffer s) @ [a, b]"
      by simp
  qed
  show ?thesis
    unfolding sendTxBuffer_def c fbind_Inr w1 Let_def w2 s2 t n_def[symmetric]
    by simp
qed

subsection \<open>What the validation functions answer\<close>

lemma range_exception_not_NO_REPLY: "range_exception buf \<noteq> NO_REPLY"
  by (simp add: range_exception_def Let_def NO_REPLY_def EXC_ADDR_RANGE_def)

lemma validateRequest_crc:
  assumes "crc_matches r = Inr ok"
  shows "\<exists>u r2. validateRequest r = Inr (u, r2) \<and> (u = NO_REPLY \<longleftrightarrow> \<not> ok)"
  using assms range_exception_not_NO_REPLY[of "au8Buffer r"]
  by (simp add: validateRequest_def NO_REPLY_def EXC_FUNC_CODE_def)

lemma validateAnswer_crc:
  assumes "crc_matches r = Inr ok"
  shows "\<exists>u r2. validateAnswer r = Inr (u, r2) \<and> (u = NO_REPLY \<longleftrightarrow> \<not> ok)"
  using assms
  by (simp add: validateAnswer_def NO_REPLY_def EXC_FUNC_CODE_def ERR_EXCEPTION_def)

lemma revalidate_crc:
  assumes "length (au8Buffer r) = MAX_BUFFER" and "length frame \<le> MAX_BUFFER"
    and "2 \<le> length frame"
  shows "\<exists>u v. revalidate_request r frame = Inr u \<and> revalidate_answer r frame = Inr v \<and>
     (u = NO_REPLY \<longleftrightarrow> crc16 (take (length frame - 2) frame) \<noteq>
          word_hl (frame ! (length frame - 2)) (frame ! (length frame - 1))) \<and>
     (v = NO_REPLY \<longleftrightarrow> crc16 (take (length frame - 2) frame) \<noteq>
          word_hl (frame ! (length frame - 2)) (frame ! (length frame - 1)))"
proof -
  obtain c r1 where g: "getRxBuffer (r\<lparr>port_rx := frame\<rparr>) = Inr (c, r1)"
    and b: "au8Buffer r1 = frame @ drop (length frame) (au8Buffer r)"
    and z: "u8BufferSize r1 = of_nat (length frame)"
    using getRxBuffer_loads[OF assms(1,2)] by blast
  have l: "length (au8Buffer r1) = MAX_BUFFER"
    using b assms(1,2) by simp
  have m: "crc_matches r1 = Inr (crc16 (take (length frame - 2) frame) =
          word_hl (frame ! (length frame - 2)) (frame ! (length frame - 1)))"
    by (rule crc_matches_loaded[OF b z l assms(3)])
  obtain u r2 where u: "validateRequest r1 = Inr (u, r2)"
      "u = NO_REPLY \<longleftrightarrow> \<not> (crc16 (take (length frame - 2) frame) =
          word_hl (frame ! (length frame - 2)) (frame ! (length frame - 1)))"
    using validateRequest_crc[OF m] by blast
  obtain v r3 where v: "validateAnswer r1 = Inr (v, r3)"
      "v = NO_REPLY \<longleftrightarrow> \<not> (crc16 (take (length frame - 2) frame) =
          word_hl (frame ! (length frame - 2)) (frame ! (length frame - 1)))"
    using validateAnswer_crc[OF m] by blast
  show ?thesis
    using u v by (simp add: revalidate_request_def revalidate_answer_def g)
qed

lemma flip_bit_changes: "j < 8 \<Longrightarrow> flip_bit j (b::u8) \<noteq> b"
proof
  assume j: "j < 8" and e: "flip_bit j b = b"
  have "bit (flip_bit j b) j \<longleftrightarrow> \<not> bit b j"
    using j by (simp add: bit_simps)
  then show False using e by simp
qed

lemma crc16_update:
  assumes "i < length msg" and "b \<noteq> msg ! i"
  shows "crc16 (msg[i := b]) \<noteq> crc16 msg"
proof -
  have "msg[i := b] = take i msg @ b # drop (Suc i) msg"
    using assms(1) by (rule upd_conv_take_nth_drop)
  moreover have "msg = take i msg @ msg ! i # drop (Suc i) msg"
    using assms(1) by (rule id_take_nth_drop)
  ultimately show ?thesis
    using crc16_change_byte[OF assms(2), of "take i msg" "drop (Suc i) msg"] by metis
qed

lemma tx_frame_passes:
  "crc16 (take (length (tx_frame msg) - 2) (tx_frame msg)) =
     word_hl (tx_frame msg ! (length (tx_frame msg) - 2)) (tx_frame msg ! (length (tx_frame msg) - 1))"
  by (simp add: tx_frame_def nth_append hi_lo_word)

lemma tx_frame_flip_fails:
  assumes "i < length (tx_frame msg)" and "j < 8"
  shows "crc16 (take (length (tx_frame msg) - 2) ((tx_frame msg)[i := flip_bit j (tx_frame msg ! i)])) \<noteq>
     word_hl ((tx_frame msg)[i := flip_bit j (tx_frame msg ! i)] ! (length (tx_frame msg) - 2))
             ((tx_frame msg)[i := flip_bit j (tx_frame msg ! i)] ! (length (tx_frame msg) - 1))"
proof -
  define h :: u8 where "h = ucast (drop_bit 8 (crc16 msg))"
  define l :: u8 where "l = ucast (crc16 msg AND 0x00ff)"
  have f: "tx_frame msg = msg @ [h, l]" by (simp add: tx_frame_def h_def l_def)
  have hl: "word_hl h l = crc16 msg" by (simp add: h_def l_def hi_lo_word)
  consider "i < length msg" | "i = length msg" | "i = Suc (length msg)"
    using assms(1) f by fastforce
  then show ?thesis
  proof cases
    case 1
    then have "crc16 (msg[i := flip_bit j (msg ! i)]) \<noteq> crc16 msg"
      using flip_bit_changes[OF assms(2)] by (intro crc16_update) auto
    then show ?thesis
      using 1 by (simp add: f list_update_append nth_append hl)
  next
    case 2
    have "word_hl (flip_bit j h) l \<noteq> word_hl h l"
      using flip_bit_changes[OF assms(2), of h] word_hl_inj by blast
    then show ?thesis
      using 2 by (simp add: f list_update_append nth_append hl)
  next
    case 3
    have "word_hl h (flip_bit j l) \<noteq> word_hl h l"
      using flip_bit_changes[OF assms(2), of l] word_hl_inj by blast
    then show ?thesis
      using 3 by (simp add: f list_update_append nth_append hl)
  qed
qed

lemma swap_high: "(ucast (drop_bit 8 (crc_swap t)) :: u8) = lowByte t"
  unfolding crc_swap_def Let_def mask_FFFF lowByte_def mask_FF
  by (rule bit_word_eqI) (auto simp add: bit_simps dest: bit_imp_le_length)

lemma swap_low: "(ucast (crc_swap t AND 0x00ff) :: u8) = highByte t"
  unfolding crc_swap_def Let_def mask_FFFF highByte_def mask_FF
  by (rule bit_word_eqI) (auto simp add: bit_simps dest: bit_imp_le_length)

lemma tx_frame_low_byte_first:
  "tx_frame msg = msg @ [lowByte (foldl crc_byte 0xFFFF msg), highByte (foldl crc_byte 0xFFFF msg)]"
  by (simp add: tx_frame_def crc16_def swap_high swap_low)

lemma sint_of_nat_u8: "n < 64 \<Longrightarrow> sint (of_nat n :: u8) = int n"
  by (simp add: signed_of_nat signed_take_bit_int_eq_self)

lemma range_exception_prefix:
  assumes "6 \<le> length frame"
  shows "range_exception (frame @ rest) = range_exception frame"
  using assms by (simp add: range_exception_def nth_append MESSAGE_defs)

text \<open>The state of the slave once \<open>getRxBuffer\<close> has drained a frame.\<close>

lemma getRxBuffer_frame:
  assumes "length (au8Buffer st) = MAX_BUFFER" and "port_rx st = frame"
    and "length frame < MAX_BUFFER"
  shows "getRxBuffer st =
     Inr (of_nat (length frame),
          st\<lparr>au8Buffer := frame @ drop (length frame) (au8Buffer st),
             u8BufferSize := of_nat (length frame), port_rx := [],
             u16InCnt := u16InCnt st + 1\<rparr>)"
proof -
  have "rx_drain frame (au8Buffer st) 0 False =
        Inr (frame @ drop (length frame) (au8Buffer st), of_nat (length frame), False)"
    using rx_drain_fits[of "au8Buffer st" 0 frame False] assms by simp
  then show ?thesis
    using assms(2) by (simp add: getRxBuffer_def Let_def)
qed

lemma validateRequest_frame:
  assumes "au8Buffer st = frame @ rest" and "u8BufferSize st = of_nat (length frame)"
    and "length (au8Buffer st) = MAX_BUFFER" and "6 \<le> length frame"
  shows "validateRequest st =
     (if crc16 (take (length frame - 2) frame) \<noteq>
           word_hl (frame ! (length frame - 2)) (frame ! (length frame - 1))
        then Inr (NO_REPLY, st\<lparr>u16errCnt := u16errCnt st + 1\<rparr>)
      else if frame ! 1 \<notin> set fctsupported
        then Inr (EXC_FUNC_CODE, st\<lparr>u16errCnt := u16errCnt st + 1\<rparr>)
      else Inr (range_exception frame, st))"
proof -
  have m: "crc_matches st = Inr (crc16 (take (length frame - 2) frame) =
          word_hl (frame ! (length frame - 2)) (frame ! (length frame - 1)))"
    using assms by (intro crc_matches_loaded) simp_all
  have f: "au8Buffer st ! FUNC = frame ! 1"
    using assms(1,4) by (simp add: FUNC_def nth_append)
  have r: "range_exception (au8Buffer st) = range_exception frame"
    using assms(1,4) by (simp add: range_exception_prefix)
  show ?thesis
    by (simp add: validateRequest_def m f r)
qed

lemma exception_sent:
  assumes "length (au8Buffer st) = MAX_BUFFER"
  shows "\<exists>st'. sendTxBuffer now (buildException e st) = Inr st' \<and>
     port_tx st' = port_tx st @ [tx_frame [u8id st, au8Buffer st ! FUNC + 0x80, e]]"
proof -
  let ?b = "buildException e st"
  have l: "length (au8Buffer ?b) = MAX_BUFFER"
    using assms by (simp add: buildException_def Let_def)
  have z: "unat (u8BufferSize ?b) + 2 \<le> MAX_BUFFER"
    by (simp add: buildException_def Let_def EXCEPTION_SIZE_def MAX_BUFFER_def)
  obtain x0 x1 x2 xs where b: "au8Buffer st = x0 # x1 # x2 # xs"
  proof -
    have "3 \<le> length (au8Buffer st)" using assms by (simp add: MAX_BUFFER_def)
    then show ?thesis
      using that by (cases "au8Buffer st"; simp; (rename_tac a as, case_tac as; simp;
        (rename_tac b bs, case_tac bs; simp)))
  qed
  have t: "take (unat (u8BufferSize ?b)) (au8Buffer ?b) = [u8id st, au8Buffer st ! FUNC + 0x80, e]"
    by (simp add: buildException_def Let_def EXCEPTION_SIZE_def b MESSAGE_defs)
  have p: "port_tx ?b = port_tx st"
    by (simp add: buildException_def Let_def)
  show ?thesis
    using sendTxBuffer_emits[OF l z, of now] unfolding t p by (auto simp add: tx_frame_def)
qed

lemma no_bit7: "(x::u8) < 0x80 \<Longrightarrow> \<not> bit x 7"
proof -
  assume l: "x < 0x80"
  then have u: "unat x < 128" by (simp add: word_less_nat_alt)
  have "bit x 7 \<longleftrightarrow> bit (unat x) 7" by (simp add: bit_unsigned_iff)
  also have "\<dots> \<longleftrightarrow> odd (unat x div 2 ^ 7)" by (rule bit_iff_odd)
  also have "\<dots> \<longleftrightarrow> False" using u by simp
  finally show ?thesis by simp
qed

lemma add_0x80: "(x::u8) < 0x80 \<Longrightarrow> x + 0x80 = x OR 0x80"
proof (rule disjunctive_add)
  fix n
  assume l: "x < 0x80"
  have "(0x80::u8) = 2 ^ 7" by simp
  then have "bit (0x80::u8) n \<longleftrightarrow> n = 7"
    by (simp only: bit_exp_iff) (auto simp add: possible_bit_word)
  then show "\<not> bit x n \<or> \<not> bit (0x80::u8) n"
    using no_bit7[OF l] by auto
qed

lemma range_exception_values: "range_exception buf = 0 \<or> range_exception buf = EXC_ADDR_RANGE"
  by (simp add: range_exception_def Let_def)

subsection \<open>Fields that sending and querying leave alone\<close>

lemma query_payload_fields:
  assumes "query_payload telegram st = Inr st2"
  shows "u16timeOut st2 = u16timeOut st \<and> u16errCnt st2 = u16errCnt st \<and>
         u8lastError st2 = u8lastError st \<and> port_rx st2 = port_rx st"
  using assms
  by (auto simp add: query_payload_def Let_def fbind_def split: if_splits sum.splits prod.splits)

lemma sendTxBuffer_fields:
  assumes "sendTxBuffer now st = Inr st'"
  shows "u32timeOut st' = now + ucast (u16timeOut st) \<and> u16errCnt st' = u16errCnt st \<and>
         u8lastError st' = u8lastError st \<and> port_rx st' = port_rx st \<and> u8state st' = u8state st"
  using assms
  by (auto simp add: sendTxBuffer_def Let_def fbind_def split: if_splits sum.splits)

lemma query_sent:
  assumes "query now telegram st = Inr (0, st1)"
  shows "u8state st1 = COM_WAITING \<and> u32timeOut st1 = now + ucast (u16timeOut st) \<and>
         u16errCnt st1 = u16errCnt st \<and> port_rx st1 = port_rx st"
proof -
  let ?st0 = "st\<lparr>au16regs := au16reg telegram,
                      au8Buffer := (au8Buffer st)[ID := tg_u8id telegram,
                                                  FUNC := u8fct telegram,
                                                  ADD_HI := highByte (u16RegAdd telegram),
                                                  ADD_LO := lowByte (u16RegAdd telegram)]\<rparr>"
  from assms obtain st2 st3 where
      p: "query_payload telegram ?st0 = Inr st2" and s: "sendTxBuffer now st2 = Inr st3"
      and e: "st1 = st3\<lparr>u8state := COM_WAITING\<rparr>"
    by (auto simp add: query_def Let_def fbind_def split: if_splits sum.splits)
  show ?thesis
    using query_payload_fields[OF p] sendTxBuffer_fields[OF s] e by simp
qed

lemma query_literals_against_ERR_LIST:
  "(u8id st \<noteq> 0 \<longrightarrow> query now telegram st = Inr (ERR_POLLING, st)) \<and>
   (u8id st = 0 \<and> u8state st \<noteq> COM_IDLE \<longrightarrow> query now telegram st = Inr (ERR_NOT_MASTER, st))"
  by (simp add: query_def ERR_LIST_defs)

subsection \<open>The clock within one period\<close>

lemma of_nat_less_same_period:
  assumes "a div 2 ^ 32 = b div 2 ^ 32"
  shows "(of_nat a :: u32) < of_nat b \<longleftrightarrow> a < b"
proof -
  have "(of_nat a :: u32) < of_nat b \<longleftrightarrow> a mod 2 ^ 32 < b mod 2 ^ 32"
    by (simp add: word_less_nat_alt unat_of_nat)
  also have "\<dots> \<longleftrightarrow> a < b"
  proof -
    have "a = a div 2 ^ 32 * 2 ^ 32 + a mod 2 ^ 32" "b = b div 2 ^ 32 * 2 ^ 32 + b mod 2 ^ 32"
      by simp_all
    then show ?thesis using assms by (metis nat_add_left_cancel_less)
  qed
  finally show ?thesis .
qed

lemma millis_add: "millis t + ucast (w :: u16) = millis (t + unat w)"
  by (simp add: millis_def)

lemma millis_add_T35: "millis t + T35 = millis (t + 5)"
  by (simp add: millis_def T35_def)

lemma same_period_between:
  assumes "t0 \<le> t" and "t \<le> b" and "b div 2 ^ 32 = t0 div (2 ^ 32 :: nat)"
  shows "t div 2 ^ 32 = t0 div (2 ^ 32 :: nat)"
proof -
  have "t0 div 2 ^ 32 \<le> t div (2 ^ 32 :: nat)" using assms(1) by (rule div_le_mono)
  moreover have "t div 2 ^ 32 \<le> b div (2 ^ 32 :: nat)" using assms(2) by (rule div_le_mono)
  ultimately show ?thesis using assms(3) by simp
qed

subsection \<open>Evaluation on concrete frames\<close>

lemma crc_byte_unfold:
  "crc_byte t b = crc_shift (crc_shift (crc_shift (crc_shift (crc_shift (crc_shift
     (crc_shift (crc_shift (t XOR ucast b))))))))"
  by (simp add: crc_byte_def eval_nat_numeral)

lemma replicate_numeral_Cons: "replicate (numeral k) x = x # replicate (pred_numeral k) x"
  by (simp add: numeral_eq_Suc)

lemma list_update_numeral_Cons: "(x # xs)[numeral k := v] = x # xs[pred_numeral k := v]"
  by (simp add: numeral_eq_Suc)

lemma for_loop_numeral:
  "for_loop (numeral k) i body s = fbind (body i s) (for_loop (pred_numeral k) (Suc i) body)"
  by (simp add: numeral_eq_Suc)

lemmas eval_list = replicate_numeral_Cons list_update_numeral_Cons for_loop_numeral

lemmas eval_crc = crc16_def crc_byte_unfold crc_shift_def crc_swap_def

lemmas eval_consts = MESSAGE_defs SIZE_defs NO_REPLY_def EXC_FUNC_CODE_def EXC_ADDR_RANGE_def
  RESPONSE_SIZE_def EXCEPTION_SIZE_def fctsupported_def T35_def ERR_BUFF_OVERFLOW_def
  ERR_EXCEPTION_def COM_IDLE_def COM_WAITING_def

lemmas eval_frame = Modbus_begin_def getRxBuffer_def validateRequest_def validateAnswer_def
  crc_matches_def calcCRC_def sendTxBuffer_def buildException_def range_exception_def
  rd_def wr_def word_hl_def highByte_def lowByte_def silence_pending_def Let_def

lemma query_example:
  "query 0 \<lparr>tg_u8id = 1, u8fct = 3, u16RegAdd = 0, u16CoilsNo = 2, au16reg = [0, 0]\<rparr> (Modbus_begin 0) =
   Inr (0, (Modbus_begin 0)\<lparr>au16regs := [0, 0],
          au8Buffer := [1, 3, 0, 0, 0, 2, 0xC4, 0x0B] @ replicate 56 0,
          port_tx := [[1, 3, 0, 0, 0, 2, 0xC4, 0x0B]], u32timeOut := 1000, u16OutCnt := 1,
          u8state := COM_WAITING\<rparr>)"
  by (simp add: query_def query_payload_def eval_frame eval_consts eval_crc eval_list)

lemma query_example_late:
  "query (millis 4294965296) \<lparr>tg_u8id = 1, u8fct = 3, u16RegAdd = 0, u16CoilsNo = 2, au16reg = [0, 0]\<rparr>
     (Modbus_begin 0) =
   Inr (0, (Modbus_begin 0)\<lparr>au16regs := [0, 0],
          au8Buffer := [1, 3, 0, 0, 0, 2, 0xC4, 0x0B] @ replicate 56 0,
          port_tx := [[1, 3, 0, 0, 0, 2, 0xC4, 0x0B]], u32timeOut := 4294966296, u16OutCnt := 1,
          u8state := COM_WAITING\<rparr>)"
  by (simp add: millis_def query_def query_payload_def eval_frame eval_consts eval_crc eval_list)

section \<open>Slave: address range of validated requests\<close>

text \<open>
  C1.  Validation should accept a request only when its address range lies inside the
  target space, so that no handler indexes a register array outside its declared size.
  The code compares with \<open>>\<close> where a single address needs \<open>>=\<close>: the write single
  register request \<open>01 06 00 10 AB CD\<close> with its CRC \<open>36 AA\<close>, address 16, passes
  \<open>validateRequest\<close> (answer 0), and \<open>process_FC6\<close> then stores at
  \<open>rw_regArea[16]\<close>, one past the 16 words of the array.
\<close>

theorem fc6_address_16_validated_and_stored_outside:
  "revalidate_request (Modbus_begin 1) [1, 6, 0, 16, 0xAB, 0xCD, 0x36, 0xAA] = Inr 0 \<and>
   poll_slave 10 ((Modbus_begin 1)\<lparr>port_rx := [1, 6, 0, 16, 0xAB, 0xCD, 0x36, 0xAA], u8lastRec := 8\<rparr>) =
     Inl (OutOfRange RW_REGAREA 16)"
  by (simp add: revalidate_request_def poll_slave_def dispatch_def process_FC6_def
      eval_frame eval_consts eval_crc eval_list)

section \<open>CRC round trip\<close>

text \<open>
  C2.  For every byte sequence \<open>any\<close>, the frame is the sequence followed by the CRC
  of \<open>calcCRC\<close>, low byte of the CRC register first, then its high byte (\<open>calcCRC\<close>
  swaps the register and \<open>sendTxBuffer\<close> sends \<open>u16crc >> 8\<close>, then \<open>u16crc & 0xff\<close>).
  The frame passes the CRC test of the validation functions, and fails it after the
  flip of any one bit of any one byte, message or CRC.  In the engines: whatever message
  of up to 62 bytes the buffer of the sender holds (so that the two CRC bytes fit),
  \<open>sendTxBuffer\<close> writes that frame; a receiver that drains it gets an answer other
  than \<open>NO_REPLY\<close> from \<open>validateRequest\<close> and from \<open>validateAnswer\<close>, and the answer
  \<open>NO_REPLY\<close> from both after any one bit flip.
\<close>

theorem crc_round_trip:
  assumes "length (au8Buffer s) = MAX_BUFFER" and "unat (u8BufferSize s) + 2 \<le> MAX_BUFFER"
    and "take (unat (u8BufferSize s)) (au8Buffer s) = msg"
    and "length (au8Buffer r) = MAX_BUFFER"
  shows "tx_frame any =
       any @ [lowByte (foldl crc_byte 0xFFFF any), highByte (foldl crc_byte 0xFFFF any)] \<and>
     crc_valid (tx_frame any) \<and>
     (\<forall>i<length (tx_frame any). \<forall>j<8.
        \<not> crc_valid ((tx_frame any)[i := flip_bit j (tx_frame any ! i)])) \<and>
     (\<exists>s' u v. sendTxBuffer now s = Inr s' \<and> port_tx s' = port_tx s @ [tx_frame msg] \<and>
        revalidate_request r (tx_frame msg) = Inr u \<and> u \<noteq> NO_REPLY \<and>
        revalidate_answer r (tx_frame msg) = Inr v \<and> v \<noteq> NO_REPLY \<and>
        (\<forall>i<length (tx_frame msg). \<forall>j<8.
           revalidate_request r ((tx_frame msg)[i := flip_bit j (tx_frame msg ! i)]) = Inr NO_REPLY \<and>
           revalidate_answer r ((tx_frame msg)[i := flip_bit j (tx_frame msg ! i)]) = Inr NO_REPLY))"
proof -
  define frame where "frame = tx_frame msg"
  have lm: "length msg = unat (u8BufferSize s)"
    using assms(1,2,3) by auto
  have lf: "length frame \<le> MAX_BUFFER" "2 \<le> length frame"
    using assms(2) lm by (simp_all add: frame_def tx_frame_def)
  obtain s' where s': "sendTxBuffer now s = Inr s'" "port_tx s' = port_tx s @ [frame]"
    using sendTxBuffer_emits[OF assms(1,2), of now] assms(3)
    by (auto simp add: frame_def tx_frame_def)
  obtain u v where uv: "revalidate_request r frame = Inr u" "revalidate_answer r frame = Inr v"
     "u \<noteq> NO_REPLY" "v \<noteq> NO_REPLY"
    using revalidate_crc[OF assms(4) lf] tx_frame_passes[of msg] unfolding frame_def by blast
  have fl: "revalidate_request r (frame[i := flip_bit j (frame ! i)]) = Inr NO_REPLY \<and>
        revalidate_answer r (frame[i := flip_bit j (frame ! i)]) = Inr NO_REPLY"
    if "i < length frame" "j < 8" for i j
  proof -
    have "length (frame[i := flip_bit j (frame ! i)]) \<le> MAX_BUFFER"
         "2 \<le> length (frame[i := flip_bit j (frame ! i)])"
      using lf by simp_all
    from revalidate_crc[OF assms(4) this] tx_frame_flip_fails[of i msg j] that
    show ?thesis unfolding frame_def by auto
  qed
  have pure: "crc_valid (tx_frame any) \<and>
     (\<forall>i<length (tx_frame any). \<forall>j<8.
        \<not> crc_valid ((tx_frame any)[i := flip_bit j (tx_frame any ! i)]))"
    using tx_frame_passes[of any] tx_frame_flip_fails[of _ any]
    by (simp add: crc_valid_def)
  show ?thesis
    using tx_frame_low_byte_first[of any] pure s' uv fl unfolding frame_def by blast
qed

theorem crc_round_trip_witness:
  "length (au8Buffer ((Modbus_begin 0)\<lparr>au8Buffer := [1, 3, 0, 0, 0, 2] @ replicate 58 0, u8BufferSize := 6\<rparr>)) = MAX_BUFFER \<and>
   unat (u8BufferSize ((Modbus_begin 0)\<lparr>au8Buffer := [1, 3, 0, 0, 0, 2] @ replicate 58 0, u8BufferSize := 6\<rparr>)) + 2 \<le> MAX_BUFFER \<and>
   length (au8Buffer (Modbus_begin 1)) = MAX_BUFFER \<and>
   crc_valid (tx_frame [1, 3, 0, 0, 0, 2]) \<and>
   (\<exists>s' u v.
      sendTxBuffer 0 ((Modbus_begin 0)\<lparr>au8Buffer := [1, 3, 0, 0, 0, 2] @ replicate 58 0, u8BufferSize := 6\<rparr>) = Inr s' \<and>
      port_tx s' = [tx_frame [1, 3, 0, 0, 0, 2]] \<and>
      revalidate_request (Modbus_begin 1) (tx_frame [1, 3, 0, 0, 0, 2]) = Inr u \<and> u \<noteq> NO_REPLY \<and>
      revalidate_answer (Modbus_begin 1) (tx_frame [1, 3, 0, 0, 0, 2]) = Inr v \<and> v \<noteq> NO_REPLY \<and>
      revalidate_request (Modbus_begin 1)
        ((tx_frame [1, 3, 0, 0, 0, 2])[7 := flip_bit 0 (tx_frame [1, 3, 0, 0, 0, 2] ! 7)]) = Inr NO_REPLY \<and>
      revalidate_answer (Modbus_begin 1)
        ((tx_frame [1, 3, 0, 0, 0, 2])[2 := flip_bit 5 (tx_frame [1, 3, 0, 0, 0, 2] ! 2)]) = Inr NO_REPLY)"
proof -
  let ?s = "(Modbus_begin 0)\<lparr>au8Buffer := [1, 3, 0, 0, 0, 2] @ replicate 58 0, u8BufferSize := 6\<rparr>"
  have h1: "length (au8Buffer ?s) = MAX_BUFFER"
    by (simp add: MAX_BUFFER_def)
  have h2: "unat (u8BufferSize ?s) + 2 \<le> MAX_BUFFER"
    by (simp add: MAX_BUFFER_def)
  have h3: "take (unat (u8BufferSize ?s)) (au8Buffer ?s) = [1, 3, 0, 0, 0, 2]"
    by simp
  have h4: "length (au8Buffer (Modbus_begin 1)) = MAX_BUFFER"
    by (simp add: Modbus_begin_def)
  have p: "port_tx ?s = []"
    by (simp add: Modbus_begin_def)
  have l: "(7 :: nat) < length (tx_frame [1, 3, 0, 0, 0, 2])" "(2 :: nat) < length (tx_frame [1, 3, 0, 0, 0, 2])"
    by (simp_all add: tx_frame_def)
  from crc_round_trip[OF h1 h2 h3 h4, of "[1, 3, 0, 0, 0, 2]" 0]
  obtain s' u v where r: "crc_valid (tx_frame [1, 3, 0, 0, 0, 2])"
      "sendTxBuffer 0 ?s = Inr s'" "port_tx s' = port_tx ?s @ [tx_frame [1, 3, 0, 0, 0, 2]]"
      "revalidate_request (Modbus_begin 1) (tx_frame [1, 3, 0, 0, 0, 2]) = Inr u" "u \<noteq> NO_REPLY"
      "revalidate_answer (Modbus_begin 1) (tx_frame [1, 3, 0, 0, 0, 2]) = Inr v" "v \<noteq> NO_REPLY"
      "\<forall>i<length (tx_frame [1, 3, 0, 0, 0, 2]). \<forall>j<8.
           revalidate_request (Modbus_begin 1)
             ((tx_frame [1, 3, 0, 0, 0, 2])[i := flip_bit j (tx_frame [1, 3, 0, 0, 0, 2] ! i)]) = Inr NO_REPLY \<and>
           revalidate_answer (Modbus_begin 1)
             ((tx_frame [1, 3, 0, 0, 0, 2])[i := flip_bit j (tx_frame [1, 3, 0, 0, 0, 2] ! i)]) = Inr NO_REPLY"
    by blast
  have f1: "revalidate_request (Modbus_begin 1)
        ((tx_frame [1, 3, 0, 0, 0, 2])[7 := flip_bit 0 (tx_frame [1, 3, 0, 0, 0, 2] ! 7)]) = Inr NO_REPLY"
    using r(8) l(1) by simp
  have f2: "revalidate_answer (Modbus_begin 1)
        ((tx_frame [1, 3, 0, 0, 0, 2])[2 := flip_bit 5 (tx_frame [1, 3, 0, 0, 0, 2] ! 2)]) = Inr NO_REPLY"
    using r(8) l(2) by simp
  show ?thesis
    using h1 h2 h4 r(1-7) f1 f2 unfolding p by auto
qed

section \<open>Register store: multi-register accessors\<close>

text \<open>
  C3.  \<open>GetRRegs\<close> and \<open>GetRWRegs\<close> should succeed exactly when \<open>adrReg + nRegs\<close> does
  not exceed 16.  The code refuses with \<open>ERROR_OF_ADR\<close> as soon as
  \<open>adrReg + nRegs >= 16\<close>: reading one register at address 15, or all 16 from address
  0, is refused (the caller's buffer is left as it was), although the single-register
  accessors \<open>GetRReg\<close> and \<open>GetRWReg\<close> read address 15.
\<close>

theorem multi_register_read_rejects_last_register:
  "GetRWRegs (Modbus_begin 1) 15 (Some [0]) 1 = Inr (ERROR_OF_ADR, Some [0]) \<and>
   GetRRegs (Modbus_begin 1) 15 (Some [0]) 1 = Inr (ERROR_OF_ADR, Some [0]) \<and>
   GetRWRegs (Modbus_begin 1) 0 (Some (replicate 16 7)) 16 = Inr (ERROR_OF_ADR, Some (replicate 16 7)) \<and>
   GetRWReg (Modbus_begin 1) 15 (Some 7) = (REG_OK, Some 0) \<and>
   GetRReg (Modbus_begin 1) 15 (Some 7) = (REG_OK, Some 0)"
  by (simp add: GetRWRegs_def GetRRegs_def GetRWReg_def GetRReg_def Modbus_begin_def SIZE_defs)

section \<open>Slave: reply to read holding registers\<close>

text \<open>
  C4.  For the request \<open>01 03 00 00 00 02\<close> (CRC \<open>C4 0B\<close>) against registers
  \<open>0x1234, 0x5678\<close> the reply should carry \<open>04 12 34 56 78\<close>.  The loop of
  \<open>process_FC3\<close> assigns in the other direction, so the reply carries the byte count 4
  followed by what the request left in the buffer, \<open>00 00 02 C4\<close>, and the two
  registers are overwritten with those bytes.
\<close>

theorem fc3_reply_not_from_registers:
  "map_sum id (\<lambda>(c, st). (port_tx st, take 2 (rw_regArea st)))
     (poll_slave 10 ((Modbus_begin 1)\<lparr>rw_regArea := [0x1234, 0x5678] @ replicate 14 0,
        port_rx := [1, 3, 0, 0, 0, 2, 0xC4, 0x0B], u8lastRec := 8\<rparr>)) =
   Inr ([[1, 3, 4, 0, 0, 2, 0xC4, 0xFA, 0xC0]], [0, 0x02C4])"
  by (simp add: poll_slave_def dispatch_def process_FC3_def eval_frame eval_consts eval_crc eval_list)

section \<open>Master: refusals of query\<close>




section \<open>Master: watchdog\<close>

text \<open>
  C6 (as amended).  A query is sent at time \<open>t0\<close> and no byte arrives.  When \<open>t0\<close>, the
  deadline \<open>t0 + u16timeOut\<close> and the time \<open>t1\<close> of a poll after the deadline lie in the
  same period of \<open>2 ^ 32\<close> milliseconds of the clock, every \<open>poll\<close> from \<open>t0\<close> up to
  the deadline returns 0 and changes nothing, and the \<open>poll\<close> at \<open>t1\<close>, the first after
  the deadline, returns 0, sets \<open>u8lastError\<close> to \<open>NO_REPLY\<close>, adds one to
  \<open>u16errCnt\<close> and leaves the state \<open>COM_IDLE\<close>.
\<close>

theorem master_timeout_after_query:
  assumes "query (millis t0) telegram st = Inr (0, st1)" and "port_rx st = []"
    and "(t0 + unat (u16timeOut st)) div 2 ^ 32 = t0 div 2 ^ 32"
    and "t0 + unat (u16timeOut st) < t1" and "t1 div 2 ^ 32 = t0 div 2 ^ 32"
  shows "u8state st1 = COM_WAITING \<and>
     (\<forall>t. t0 \<le> t \<and> t \<le> t0 + unat (u16timeOut st) \<longrightarrow> poll (millis t) st1 = Inr (0, st1)) \<and>
     poll (millis t1) st1 = Inr (0, st1\<lparr>u8state := COM_IDLE, u8lastError := NO_REPLY,
                              u16errCnt := u16errCnt st + 1\<rparr>)"
proof -
  note q = query_sent[OF assms(1)]
  have d: "u32timeOut st1 = millis (t0 + unat (u16timeOut st))"
    using q by (simp add: millis_add)
  have rx: "port_rx st1 = []" using q assms(2) by simp
  have cmp: "millis t > u32timeOut st1 \<longleftrightarrow> t0 + unat (u16timeOut st) < t"
    if "t div 2 ^ 32 = t0 div 2 ^ 32" for t
    using of_nat_less_same_period[of "t0 + unat (u16timeOut st)" t] that assms(3)
    by (simp add: d millis_def)
  have idle: "poll (millis t) st1 = Inr (0, st1)"
    if "t0 \<le> t" and "t \<le> t0 + unat (u16timeOut st)" for t
  proof -
    have "t div 2 ^ 32 = t0 div 2 ^ 32"
      using that assms(3) by (rule same_period_between)
    then have "\<not> millis t > u32timeOut st1"
      using cmp that(2) by simp
    then show ?thesis
      using rx by (simp add: poll_def)
  qed
  have "millis t1 > u32timeOut st1"
    using cmp[OF assms(5)] assms(4) by simp
  then have late: "poll (millis t1) st1 = Inr (0, st1\<lparr>u8state := COM_IDLE, u8lastError := NO_REPLY,
                              u16errCnt := u16errCnt st + 1\<rparr>)"
    using q by (simp add: poll_def)
  show ?thesis
    using q idle late by simp
qed

theorem master_timeout_after_query_witness:
  "query (millis 0) \<lparr>tg_u8id = 1, u8fct = 3, u16RegAdd = 0, u16CoilsNo = 2, au16reg = [0, 0]\<rparr>
     (Modbus_begin 0) =
     Inr (0, (Modbus_begin 0)\<lparr>au16regs := [0, 0],
          au8Buffer := [1, 3, 0, 0, 0, 2, 0xC4, 0x0B] @ replicate 56 0,
          port_tx := [[1, 3, 0, 0, 0, 2, 0xC4, 0x0B]], u32timeOut := 1000, u16OutCnt := 1,
          u8state := COM_WAITING\<rparr>) \<and>
   port_rx (Modbus_begin 0) = [] \<and>
   (0 + unat (u16timeOut (Modbus_begin 0))) div 2 ^ 32 = (0 :: nat) div 2 ^ 32 \<and>
   0 + unat (u16timeOut (Modbus_begin 0)) < 1001 \<and>
   (1001 :: nat) div 2 ^ 32 = 0 div 2 ^ 32 \<and>
   poll (millis 1000) ((Modbus_begin 0)\<lparr>au16regs := [0, 0],
          au8Buffer := [1, 3, 0, 0, 0, 2, 0xC4, 0x0B] @ replicate 56 0,
          port_tx := [[1, 3, 0, 0, 0, 2, 0xC4, 0x0B]], u32timeOut := 1000, u16OutCnt := 1,
          u8state := COM_WAITING\<rparr>) =
     Inr (0, (Modbus_begin 0)\<lparr>au16regs := [0, 0],
          au8Buffer := [1, 3, 0, 0, 0, 2, 0xC4, 0x0B] @ replicate 56 0,
          port_tx := [[1, 3, 0, 0, 0, 2, 0xC4, 0x0B]], u32timeOut := 1000, u16OutCnt := 1,
          u8state := COM_WAITING\<rparr>) \<and>
   poll (millis 1001) ((Modbus_begin 0)\<lparr>au16regs := [0, 0],
          au8Buffer := [1, 3, 0, 0, 0, 2, 0xC4, 0x0B] @ replicate 56 0,
          port_tx := [[1, 3, 0, 0, 0, 2, 0xC4, 0x0B]], u32timeOut := 1000, u16OutCnt := 1,
          u8state := COM_WAITING\<rparr>) =
     Inr (0, (Modbus_begin 0)\<lparr>au16regs := [0, 0],
          au8Buffer := [1, 3, 0, 0, 0, 2, 0xC4, 0x0B] @ replicate 56 0,
          port_tx := [[1, 3, 0, 0, 0, 2, 0xC4, 0x0B]], u32timeOut := 1000, u16OutCnt := 1,
          u8state := COM_IDLE, u8lastError := 255, u16errCnt := 1\<rparr>)"
proof -
  let ?tg = "\<lparr>tg_u8id = 1, u8fct = 3, u16RegAdd = 0, u16CoilsNo = 2, au16reg = [0, 0]\<rparr>"
  let ?st1 = "(Modbus_begin 0)\<lparr>au16regs := [0, 0],
          au8Buffer := [1, 3, 0, 0, 0, 2, 0xC4, 0x0B] @ replicate 56 0,
          port_tx := [[1, 3, 0, 0, 0, 2, 0xC4, 0x0B]], u32timeOut := 1000, u16OutCnt := 1,
          u8state := COM_WAITING\<rparr>"
  have m: "millis 0 = 0" by (simp add: millis_def)
  have h1: "query (millis 0) ?tg (Modbus_begin 0) = Inr (0, ?st1)"
    unfolding m by (rule query_example)
  have h2: "port_rx (Modbus_begin 0) = []"
    by (simp add: Modbus_begin_def)
  have u: "unat (u16timeOut (Modbus_begin 0)) = 1000"
    by (simp add: Modbus_begin_def)
  have h3: "(0 + unat (u16timeOut (Modbus_begin 0))) div 2 ^ 32 = (0 :: nat) div 2 ^ 32"
    by (simp add: u)
  have h4: "0 + unat (u16timeOut (Modbus_begin 0)) < 1001"
    by (simp add: u)
  have h5: "(1001 :: nat) div 2 ^ 32 = 0 div 2 ^ 32"
    by simp
  have e: "u16errCnt (Modbus_begin 0) = 0"
    by (simp add: Modbus_begin_def)
  from master_timeout_after_query[OF h1 h2 h3 h4 h5]
  have a: "\<forall>t. 0 \<le> t \<and> t \<le> 0 + unat (u16timeOut (Modbus_begin 0)) \<longrightarrow>
             poll (millis t) ?st1 = Inr (0, ?st1)"
    and b: "poll (millis 1001) ?st1 = Inr (0, ?st1\<lparr>u8state := COM_IDLE, u8lastError := NO_REPLY,
                              u16errCnt := u16errCnt (Modbus_begin 0) + 1\<rparr>)"
    by blast+
  have a': "poll (millis 1000) ?st1 = Inr (0, ?st1)"
    using a u by simp
  have b': "poll (millis 1001) ?st1 =
      Inr (0, (Modbus_begin 0)\<lparr>au16regs := [0, 0],
          au8Buffer := [1, 3, 0, 0, 0, 2, 0xC4, 0x0B] @ replicate 56 0,
          port_tx := [[1, 3, 0, 0, 0, 2, 0xC4, 0x0B]], u32timeOut := 1000, u16OutCnt := 1,
          u8state := COM_IDLE, u8lastError := 255, u16errCnt := 1\<rparr>)"
    unfolding b by (simp add: e NO_REPLY_def)
  show ?thesis
    using h1 h2 h3 h4 h5 a' b' by blast
qed

text \<open>
  The claim as stated has \<open>poll\<close> return NoReply, at whatever time the query was
  sent.  After a query at time 0 with the timeout of 1000 ms, \<open>poll\<close> at 1001 returns
  0; \<open>NO_REPLY\<close> (255) is only the value of \<open>u8lastError\<close>.  After a query at
  \<open>2 ^ 32 - 2000\<close>, the clock wraps before the \<open>poll\<close> 3000 ms later, which reports
  nothing: the state stays \<open>COM_WAITING\<close>, \<open>u8lastError\<close> and \<open>u16errCnt\<close> stay 0.
\<close>

theorem master_timeout_returns_zero_and_misses_wrap:
  "fbind (query (millis 0) \<lparr>tg_u8id = 1, u8fct = 3, u16RegAdd = 0, u16CoilsNo = 2, au16reg = [0, 0]\<rparr>
            (Modbus_begin 0))
     (\<lambda>(c, st1). fbind (poll (millis (0 + 1001)) st1)
     (\<lambda>(r, st2). Inr (r, u8lastError st2, u8state st2, u16errCnt st2))) =
   Inr (0, NO_REPLY, COM_IDLE, 1) \<and> (0 :: i8) \<noteq> NO_REPLY \<and>
   fbind (query (millis 4294965296)
            \<lparr>tg_u8id = 1, u8fct = 3, u16RegAdd = 0, u16CoilsNo = 2, au16reg = [0, 0]\<rparr> (Modbus_begin 0))
     (\<lambda>(c, st1). fbind (poll (millis (4294965296 + 3000)) st1)
     (\<lambda>(r, st2). Inr (r, u8lastError st2, u8state st2, u16errCnt st2))) =
   Inr (0, 0, COM_WAITING, 0)"
proof -
  have m: "millis 0 = 0" by (simp add: millis_def)
  show ?thesis
    unfolding m query_example query_example_late
    by (simp add: millis_def poll_def NO_REPLY_def COM_IDLE_def COM_WAITING_def Modbus_begin_def)
qed

section \<open>Slave: silence on a bad CRC, exception reply otherwise\<close>

text \<open>
  C7 (as amended).  For a frame of 7 to 63 bytes that the slave has drained and that
  carries its own address: when the CRC test fails, \<open>poll\<close> returns \<open>NO_REPLY\<close> and
  writes nothing to the port; when the CRC test passes and the function code is not
  supported (exception 1), or it is supported and the address range is refused
  (exception 2), \<open>poll\<close> writes one block: own id, the function code of the request
  plus \<open>0x80\<close> modulo 256, the exception code, and the CRC of these three bytes.  The
  second byte is the function code with bit \<open>0x80\<close> set whenever the function code of
  the request is below \<open>0x80\<close>.
\<close>

theorem slave_silent_on_bad_crc_else_exception:
  assumes "length (au8Buffer st) = MAX_BUFFER" and "port_rx st = frame"
    and "7 \<le> length frame" and "length frame < MAX_BUFFER"
    and "u8lastRec st = of_nat (length frame)" and "\<not> silence_pending now st"
    and "frame ! 0 = u8id st"
  shows
   "(\<not> crc_valid frame \<longrightarrow>
     (\<exists>st'. poll_slave now st = Inr (NO_REPLY, st') \<and> port_tx st' = port_tx st)) \<and>
    (crc_valid frame \<and> frame ! 1 \<notin> set fctsupported \<longrightarrow>
     (\<exists>st'. poll_slave now st = Inr (EXC_FUNC_CODE, st') \<and>
        port_tx st' = port_tx st @ [tx_frame [u8id st, frame ! 1 + 0x80, EXC_FUNC_CODE]])) \<and>
    (crc_valid frame \<and> frame ! 1 \<in> set fctsupported \<and> range_exception frame \<noteq> 0 \<longrightarrow>
     (\<exists>st'. poll_slave now st = Inr (EXC_ADDR_RANGE, st') \<and>
        port_tx st' = port_tx st @ [tx_frame [u8id st, frame ! 1 + 0x80, EXC_ADDR_RANGE]])) \<and>
    (frame ! 1 < 0x80 \<longrightarrow> frame ! 1 + 0x80 = frame ! 1 OR 0x80)"
proof -
  define st2 where "st2 = st\<lparr>u8lastRec := 0,
      au8Buffer := frame @ drop (length frame) (au8Buffer st),
      u8BufferSize := of_nat (length frame), port_rx := [],
      u16InCnt := u16InCnt st + 1, u8lastError := of_nat (length frame)\<rparr>"
  have n64: "length frame < 64" and n7: "7 \<le> length frame"
    using assms(3,4) by (simp_all add: MAX_BUFFER_def)
  have un: "unat (of_nat (length frame) :: u8) = length frame"
    using n64 by (simp add: unat_of_nat_u8)
  have cur: "(of_nat (length frame) :: u8) \<noteq> 0"
    using un n7 by (metis not_numeral_le_zero unat_0)
  have sn: "\<not> sint (of_nat (length frame) :: u8) < 7"
    using n64 n7 by (simp add: sint_of_nat_u8)
  have g: "getRxBuffer (st\<lparr>u8lastRec := 0\<rparr>) =
     Inr (of_nat (length frame),
          st\<lparr>u8lastRec := 0, au8Buffer := frame @ drop (length frame) (au8Buffer st),
             u8BufferSize := of_nat (length frame), port_rx := [],
             u16InCnt := u16InCnt st + 1\<rparr>)"
    using getRxBuffer_frame[of "st\<lparr>u8lastRec := 0\<rparr>" frame] assms(1,2,4)
    by simp
  have l2: "length (au8Buffer st2) = MAX_BUFFER"
    using assms(1,4) by (simp add: st2_def)
  have id2: "(frame @ drop (length frame) (au8Buffer st)) ! ID = u8id st"
    using assms(3,7) by (auto simp add: ID_def nth_append)
  have f2: "au8Buffer st2 ! FUNC = frame ! 1"
    using assms(3) by (auto simp add: st2_def FUNC_def nth_append)
  have v: "validateRequest st2 =
     (if crc16 (take (length frame - 2) frame) \<noteq>
           word_hl (frame ! (length frame - 2)) (frame ! (length frame - 1))
        then Inr (NO_REPLY, st2\<lparr>u16errCnt := u16errCnt st2 + 1\<rparr>)
      else if frame ! 1 \<notin> set fctsupported
        then Inr (EXC_FUNC_CODE, st2\<lparr>u16errCnt := u16errCnt st2 + 1\<rparr>)
      else Inr (range_exception frame, st2))"
    using assms(3) l2 by (intro validateRequest_frame) (simp_all add: st2_def)
  have p: "poll_slave now st =
     fbind (validateRequest st2) (\<lambda>(u8exception, st3).
                if u8exception > 0 then
                  fbind (if u8exception \<noteq> NO_REPLY
                         then sendTxBuffer now (buildException u8exception st3)
                         else Inr st3) (\<lambda>st4.
                  Inr (u8exception, st4\<lparr>u8lastError := u8exception\<rparr>))
                else
                  dispatch now (of_nat (length frame))
                    (st3\<lparr>u32timeOut := now + ucast (u16timeOut st3), u8lastError := 0\<rparr>))"
    using assms(2,5,6) cur sn id2 unfolding poll_slave_def Let_def st2_def
    by (simp add: g)
  have bad: "\<exists>st'. poll_slave now st = Inr (NO_REPLY, st') \<and> port_tx st' = port_tx st"
    if "crc16 (take (length frame - 2) frame) \<noteq>
       word_hl (frame ! (length frame - 2)) (frame ! (length frame - 1))"
    using that unfolding p v by (simp add: NO_REPLY_def st2_def)
  have exc: "\<exists>st'. poll_slave now st = Inr (e, st') \<and>
        port_tx st' = port_tx st @ [tx_frame [u8id st, frame ! 1 + 0x80, e]]"
    if "validateRequest st2 = Inr (e, st3)" and "e \<noteq> 0" and "e \<noteq> NO_REPLY"
      and "au8Buffer st3 = au8Buffer st2" and "port_tx st3 = port_tx st" and "u8id st3 = u8id st"
    for e st3
  proof -
    have "length (au8Buffer st3) = MAX_BUFFER" using that(4) l2 by simp
    from exception_sent[OF this, of now e] obtain st4 where
      s: "sendTxBuffer now (buildException e st3) = Inr st4"
         "port_tx st4 = port_tx st3 @ [tx_frame [u8id st3, au8Buffer st3 ! FUNC + 0x80, e]]"
      by blast
    have "0 < e" using that(2) by (simp add: word_neq_0_conv)
    then show ?thesis
      using that s f2 by (simp add: p)
  qed
  have fc: "\<exists>st'. poll_slave now st = Inr (EXC_FUNC_CODE, st') \<and>
        port_tx st' = port_tx st @ [tx_frame [u8id st, frame ! 1 + 0x80, EXC_FUNC_CODE]]"
    if "crc16 (take (length frame - 2) frame) =
       word_hl (frame ! (length frame - 2)) (frame ! (length frame - 1))"
      and "frame ! 1 \<notin> set fctsupported"
  proof -
    have "validateRequest st2 = Inr (EXC_FUNC_CODE, st2\<lparr>u16errCnt := u16errCnt st2 + 1\<rparr>)"
      using that unfolding v by simp
    then show ?thesis
      by (rule exc) (simp_all add: EXC_FUNC_CODE_def NO_REPLY_def st2_def)
  qed
  have ar: "\<exists>st'. poll_slave now st = Inr (EXC_ADDR_RANGE, st') \<and>
        port_tx st' = port_tx st @ [tx_frame [u8id st, frame ! 1 + 0x80, EXC_ADDR_RANGE]]"
    if "crc16 (take (length frame - 2) frame) =
       word_hl (frame ! (length frame - 2)) (frame ! (length frame - 1))"
      and "frame ! 1 \<in> set fctsupported" and "range_exception frame \<noteq> 0"
  proof -
    have "range_exception frame = EXC_ADDR_RANGE"
      using that(3) range_exception_values[of frame] by simp
    then have "validateRequest st2 = Inr (EXC_ADDR_RANGE, st2)"
      using that unfolding v by simp
    then show ?thesis
      by (rule exc) (simp_all add: EXC_ADDR_RANGE_def NO_REPLY_def st2_def)
  qed
  show ?thesis
    using bad fc ar add_0x80[of "frame ! 1"] unfolding crc_valid_def by blast
qed

theorem slave_silent_on_bad_crc_else_exception_witness:
  "(\<exists>st'. poll_slave 10 ((Modbus_begin 1)\<lparr>port_rx := [1, 7, 0, 0, 0, 0, 0xB4, 0x0B], u8lastRec := 8\<rparr>) =
       Inr (NO_REPLY, st') \<and> port_tx st' = []) \<and>
   (\<exists>st'. poll_slave 10 ((Modbus_begin 1)\<lparr>port_rx := [1, 7, 0, 0, 0, 0, 0xB4, 0x0A], u8lastRec := 8\<rparr>) =
       Inr (EXC_FUNC_CODE, st') \<and> port_tx st' = [[1, 0x87, 1, 0x82, 0x30]]) \<and>
   (\<exists>st'. poll_slave 10 ((Modbus_begin 1)\<lparr>port_rx := [1, 6, 0, 17, 0, 1, 0x18, 0x0F], u8lastRec := 8\<rparr>) =
       Inr (EXC_ADDR_RANGE, st') \<and> port_tx st' = [[1, 0x86, 2, 0xC3, 0xA1]]) \<and>
   (7 :: u8) + 0x80 = 7 OR 0x80"
proof -
  let ?bad = "[1, 7, 0, 0, 0, 0, 0xB4, 0x0B] :: u8 list"
  let ?unsup = "[1, 7, 0, 0, 0, 0, 0xB4, 0x0A] :: u8 list"
  let ?adr = "[1, 6, 0, 17, 0, 1, 0x18, 0x0F] :: u8 list"
  have c1: "\<not> crc_valid ?bad"
    by (simp add: crc_valid_def eval_crc word_hl_def)
  have c2: "crc_valid ?unsup \<and> ?unsup ! 1 \<notin> set fctsupported"
    by (simp add: crc_valid_def eval_crc word_hl_def fctsupported_def)
  have c3: "crc_valid ?adr \<and> ?adr ! 1 \<in> set fctsupported \<and> range_exception ?adr \<noteq> 0"
    by (simp add: crc_valid_def eval_crc word_hl_def fctsupported_def range_exception_def eval_consts)
  have c4: "(?unsup ! 1) < 0x80"
    by simp
  have w: "length (au8Buffer (Modbus_begin 1)) = 64" "u8id (Modbus_begin 1) = 1"
    "port_tx (Modbus_begin 1) = []" "u32time (Modbus_begin 1) = 0"
    by (simp_all add: Modbus_begin_def MAX_BUFFER_def)
  have t: "tx_frame [1, 7 + 0x80, EXC_FUNC_CODE] = [1, 0x87, 1, 0x82, 0x30]"
    "tx_frame [1, 6 + 0x80, EXC_ADDR_RANGE] = [1, 0x86, 2, 0xC3, 0xA1]"
    by (simp_all add: tx_frame_def eval_crc eval_consts)
  have i1: "\<exists>st'. poll_slave 10 ((Modbus_begin 1)\<lparr>port_rx := ?bad, u8lastRec := 8\<rparr>) =
       Inr (NO_REPLY, st') \<and> port_tx st' = []"
    using slave_silent_on_bad_crc_else_exception[of "(Modbus_begin 1)\<lparr>port_rx := ?bad, u8lastRec := 8\<rparr>"
        ?bad 10] c1
    by (simp add: w MAX_BUFFER_def silence_pending_def)
  have i2: "(\<exists>st'. poll_slave 10 ((Modbus_begin 1)\<lparr>port_rx := ?unsup, u8lastRec := 8\<rparr>) =
       Inr (EXC_FUNC_CODE, st') \<and> port_tx st' = [[1, 0x87, 1, 0x82, 0x30]]) \<and>
       (7 :: u8) + 0x80 = 7 OR 0x80"
    using slave_silent_on_bad_crc_else_exception[of "(Modbus_begin 1)\<lparr>port_rx := ?unsup, u8lastRec := 8\<rparr>"
        ?unsup 10] c2 c4 t
    by (simp add: w MAX_BUFFER_def silence_pending_def)
  have i3: "\<exists>st'. poll_slave 10 ((Modbus_begin 1)\<lparr>port_rx := ?adr, u8lastRec := 8\<rparr>) =
       Inr (EXC_ADDR_RANGE, st') \<and> port_tx st' = [[1, 0x86, 2, 0xC3, 0xA1]]"
    using slave_silent_on_bad_crc_else_exception[of "(Modbus_begin 1)\<lparr>port_rx := ?adr, u8lastRec := 8\<rparr>"
        ?adr 10] c3 t
    by (simp add: w MAX_BUFFER_def silence_pending_def)
  show ?thesis
    using i1 i2 i3 by blast
qed

text \<open>
  The claim as stated has bit \<open>0x80\<close> set in every exception reply.  The request
  \<open>01 83 00 00 00 00\<close> with its CRC \<open>44 14\<close> is answered with \<open>01 03 01\<close> and CRC:
  \<open>0x83 + 0x80\<close> wraps to \<open>0x03\<close>.
\<close>

theorem exception_reply_clears_bit_0x80:
  "map_sum id (\<lambda>(c, st). (c, port_tx st))
     (poll_slave 10 ((Modbus_begin 1)\<lparr>port_rx := [1, 0x83, 0, 0, 0, 0, 0x44, 0x14], u8lastRec := 8\<rparr>)) =
   Inr (EXC_FUNC_CODE, [[1, 0x03, 1, 0xE1, 0x30]]) \<and> (0x03 :: u8) AND 0x80 = 0"
  by (simp add: poll_slave_def eval_frame eval_consts eval_crc eval_list)

section \<open>Receive: draining more than the buffer holds\<close>

text \<open>
  C8.  A drain should never store at index 64 or beyond.  The loop of \<open>getRxBuffer\<close>
  sets its overflow flag once 64 bytes are stored but goes on storing: with 65 bytes
  waiting in the port, the 65th is stored at \<open>au8Buffer[64]\<close>.
\<close>

theorem getRxBuffer_overruns_buffer:
  "getRxBuffer ((Modbus_begin 1)\<lparr>port_rx := replicate 65 0x55\<rparr>) = Inl (OutOfRange AU8BUFFER 64)"
proof -
  have "rx_drain (replicate 65 0x55) (replicate MAX_BUFFER 0) 0 False =
        Inl (OutOfRange AU8BUFFER (int MAX_BUFFER))"
    by (rule rx_drain_overrun) (simp_all add: MAX_BUFFER_def)
  then show ?thesis
    by (simp add: getRxBuffer_def Modbus_begin_def MAX_BUFFER_def)
qed

section \<open>Deadlines and the wrap of the clock\<close>

text \<open>
  C9 (as amended).  Both deadline tests compare the clock with the stored deadline
  directly (\<open>millis() > u32timeOut\<close>, \<open>millis() < u32time\<close>).  They agree with the
  elapsed time (\<open>t1 > t0 + timeout\<close>, \<open>t1 < t0 + 5\<close>) when the time of arming \<open>t0\<close>,
  the deadline and the time of the test \<open>t1\<close> lie in the same period of \<open>2 ^ 32\<close>
  milliseconds of the clock.
\<close>

theorem deadlines_right_without_wrap:
  assumes "t1 div 2 ^ 32 = t0 div 2 ^ 32"
  shows "(sendTxBuffer (millis t0) st = Inr st' \<and>
            (t0 + unat (u16timeOut st)) div 2 ^ 32 = t0 div 2 ^ 32 \<longrightarrow>
          (getTimeOutState (millis t1) st' \<longleftrightarrow> t0 + unat (u16timeOut st) < t1)) \<and>
         (u32time st2 = millis t0 + T35 \<and> (t0 + 5) div 2 ^ 32 = t0 div 2 ^ 32 \<longrightarrow>
          (silence_pending (millis t1) st2 \<longleftrightarrow> t1 < t0 + 5))"
proof -
  have a: "getTimeOutState (millis t1) st' \<longleftrightarrow> t0 + unat (u16timeOut st) < t1"
    if "sendTxBuffer (millis t0) st = Inr st'"
      and "(t0 + unat (u16timeOut st)) div 2 ^ 32 = t0 div 2 ^ 32"
  proof -
    have "u32timeOut st' = millis (t0 + unat (u16timeOut st))"
      using sendTxBuffer_fields[OF that(1)] by (simp add: millis_add)
    then show ?thesis
      using of_nat_less_same_period[of "t0 + unat (u16timeOut st)" t1] that(2) assms
      by (simp add: getTimeOutState_def millis_def)
  qed
  have b: "silence_pending (millis t1) st2 \<longleftrightarrow> t1 < t0 + 5"
    if "u32time st2 = millis t0 + T35" and "(t0 + 5) div 2 ^ 32 = t0 div 2 ^ 32"
    using of_nat_less_same_period[of t1 "t0 + 5"] that assms
    by (simp add: silence_pending_def millis_add_T35) (simp add: millis_def)
  show ?thesis
    using a b by blast
qed

theorem deadlines_right_without_wrap_witness:
  "(3000 :: nat) div 2 ^ 32 = 0 div 2 ^ 32 \<and>
   sendTxBuffer (millis 0) (Modbus_begin 0) =
     Inr ((Modbus_begin 0)\<lparr>au8Buffer := [255, 255] @ replicate 62 0, port_tx := [[255, 255]],
            u32timeOut := 1000, u16OutCnt := 1\<rparr>) \<and>
   (0 + unat (u16timeOut (Modbus_begin 0))) div 2 ^ 32 = 0 div 2 ^ 32 \<and>
   getTimeOutState (millis 3000)
     ((Modbus_begin 0)\<lparr>au8Buffer := [255, 255] @ replicate 62 0, port_tx := [[255, 255]],
            u32timeOut := 1000, u16OutCnt := 1\<rparr>) \<and>
   u32time ((Modbus_begin 1)\<lparr>u32time := 5\<rparr>) = millis 0 + T35 \<and>
   (0 + 5) div 2 ^ 32 = (0 :: nat) div 2 ^ 32 \<and>
   \<not> silence_pending (millis 3000) ((Modbus_begin 1)\<lparr>u32time := 5\<rparr>)"
proof -
  let ?st' = "(Modbus_begin 0)\<lparr>au8Buffer := [255, 255] @ replicate 62 0, port_tx := [[255, 255]],
            u32timeOut := 1000, u16OutCnt := 1\<rparr>"
  have h0: "(3000 :: nat) div 2 ^ 32 = 0 div 2 ^ 32"
    by simp
  have h1: "sendTxBuffer (millis 0) (Modbus_begin 0) = Inr ?st'"
    by (simp add: millis_def eval_frame eval_consts eval_crc eval_list)
  have h2: "(0 + unat (u16timeOut (Modbus_begin 0))) div 2 ^ 32 = 0 div 2 ^ 32"
    by (simp add: Modbus_begin_def)
  have h3: "u32time ((Modbus_begin 1)\<lparr>u32time := 5\<rparr>) = millis 0 + T35"
    by (simp add: millis_def T35_def)
  have h4: "(0 + 5) div 2 ^ 32 = (0 :: nat) div 2 ^ 32"
    by simp
  show ?thesis
    using deadlines_right_without_wrap[OF h0, of "Modbus_begin 0" ?st' "(Modbus_begin 1)\<lparr>u32time := 5\<rparr>"]
      h0 h1 h2 h3 h4
    by (simp add: Modbus_begin_def)
qed

text \<open>
  The claim as stated has the same decision with and without a wrap.  A watchdog of
  1000 ms tested 3000 ms after arming has elapsed when armed at 0, and has not when
  armed at \<open>2 ^ 32 - 2000\<close>, where the clock wraps before the test.
\<close>

theorem watchdog_missed_across_wrap:
  "map_sum id (getTimeOutState (millis (0 + 3000))) (sendTxBuffer (millis 0) (Modbus_begin 0)) = Inr True \<and>
   map_sum id (getTimeOutState (millis (4294965296 + 3000)))
     (sendTxBuffer (millis 4294965296) (Modbus_begin 0)) = Inr False"
  by (simp add: millis_def getTimeOutState_def eval_frame eval_consts eval_crc eval_list)

section \<open>Master: the watchdog test comes first\<close>

text \<open>
  C10.  Whenever the clock exceeds \<open>u32timeOut\<close>, \<open>poll\<close> of the master, whatever the
  communication state and whatever waits in the port, sets the state to \<open>COM_IDLE\<close>,
  \<open>u8lastError\<close> to \<open>NO_REPLY\<close> (255), adds one to \<open>u16errCnt\<close>, changes nothing else
  and returns 0.
\<close>

theorem poll_tests_watchdog_first:
  assumes "now > u32timeOut st"
  shows "poll now st =
     Inr (0, st\<lparr>u8state := COM_IDLE, u8lastError := NO_REPLY, u16errCnt := u16errCnt st + 1\<rparr>)"
  using assms by (simp add: poll_def)

theorem poll_tests_watchdog_first_witness:
  "(5 :: u32) > u32timeOut (Modbus_begin 0) \<and>
   poll 5 (Modbus_begin 0) =
     Inr (0, (Modbus_begin 0)\<lparr>u8state := COM_IDLE, u8lastError := 255, u16errCnt := 1\<rparr>) \<and>
   (2000 :: u32) > u32timeOut ((Modbus_begin 0)\<lparr>u8state := COM_WAITING, u32timeOut := 1000,
        port_rx := [1, 3, 2, 0, 7], u8lastRec := 5\<rparr>) \<and>
   poll 2000 ((Modbus_begin 0)\<lparr>u8state := COM_WAITING, u32timeOut := 1000,
        port_rx := [1, 3, 2, 0, 7], u8lastRec := 5\<rparr>) =
     Inr (0, (Modbus_begin 0)\<lparr>u8state := COM_IDLE, u32timeOut := 1000,
        port_rx := [1, 3, 2, 0, 7], u8lastRec := 5, u8lastError := 255, u16errCnt := 1\<rparr>)"
proof -
  have h1: "(5 :: u32) > u32timeOut (Modbus_begin 0)"
    by (simp add: Modbus_begin_def)
  have h2: "(2000 :: u32) > u32timeOut ((Modbus_begin 0)\<lparr>u8state := COM_WAITING,
        u32timeOut := 1000, port_rx := [1, 3, 2, 0, 7], u8lastRec := 5\<rparr>)"
    by simp
  show ?thesis
    using poll_tests_watchdog_first[OF h1] poll_tests_watchdog_first[OF h2] h1 h2
    by (simp add: Modbus_begin_def NO_REPLY_def COM_IDLE_def COM_WAITING_def)
qed

end
